theory Spec2Isabelle
  imports Complex_Main "HOL-Library.Sublist"
begin

section \<open>Strings\<close>

text \<open>
  A source string is modelled as a \<^typ>\<open>string\<close>: one \<^typ>\<open>char\<close> per code unit, read as
  Latin-1 (code units below 256). \<open>length\<close> is the source's \<open>.length\<close> on such strings.
\<close>

definition dquote :: char where
  "dquote = CHR 0x22"

definition squote :: char where
  "squote = CHR 0x27"

definition LF :: char where
  "LF = CHR 0x0A"

definition CR :: char where
  "CR = CHR 0x0D"

text \<open>White space and line terminators, as \<open>String.prototype.trim\<close> and the regular
  expression class \<open>\s\<close> read them (tab, line feed, vertical tab, form feed, carriage
  return, space, no-break space).\<close>

definition is_space :: "char \<Rightarrow> bool" where
  "is_space c \<longleftrightarrow> c \<in> set [CHR 0x09, CHR 0x0A, CHR 0x0B, CHR 0x0C, CHR 0x0D, CHR 0x20, CHR 0xA0]"

definition trim :: "string \<Rightarrow> string" where
  "trim s = rev (dropWhile is_space (rev (dropWhile is_space s)))"

text \<open>\<open>String.prototype.toLowerCase\<close> on Latin-1: the letters \<open>A\<close> to \<open>Z\<close> and the accented
  capitals \<open>0xC0\<close> to \<open>0xDE\<close> (the multiplication sign \<open>0xD7\<close> apart) move up by 32.\<close>

definition toLowerCase_char :: "char \<Rightarrow> char" where
  "toLowerCase_char c =
     (let n = (of_char c :: nat) in
      if (65 \<le> n \<and> n \<le> 90) \<or> (192 \<le> n \<and> n \<le> 222 \<and> n \<noteq> 215) then char_of (n + 32) else c)"

definition toLowerCase :: "string \<Rightarrow> string" where
  "toLowerCase s = map toLowerCase_char s"

text \<open>\<open>Array.prototype.join\<close> on strings.\<close>

fun join :: "string \<Rightarrow> string list \<Rightarrow> string" where
  "join sep [] = []"
| "join sep [x] = x"
| "join sep (x # y # ys) = x @ sep @ join sep (y # ys)"

text \<open>\<open>String.prototype.includes\<close>: is the needle a contiguous part of the text, searched
  from the left.\<close>

fun str_includes :: "string \<Rightarrow> string \<Rightarrow> bool" where
  "str_includes [] needle = (needle = [])"
| "str_includes (c # cs) needle = (prefix needle (c # cs) \<or> str_includes cs needle)"

text \<open>\<open>Array.prototype.indexOf\<close>, with \<open>None\<close> for the source's \<open>-1\<close>.\<close>

fun indexOf :: "'a list \<Rightarrow> 'a \<Rightarrow> nat option" where
  "indexOf [] x = None"
| "indexOf (y # ys) x = (if y = x then Some 0 else map_option Suc (indexOf ys x))"

text \<open>An array read \<open>row[i]\<close>: \<open>undefined\<close> (here \<open>None\<close>) out of range.\<close>

definition elem_at :: "'a list \<Rightarrow> nat \<Rightarrow> 'a option" where
  "elem_at xs i = (if i < length xs then Some (xs ! i) else None)"

text \<open>A template literal renders an absent value as the text \<open>undefined\<close>.\<close>

definition template :: "string option \<Rightarrow> string" where
  "template v = (case v of None \<Rightarrow> ''undefined'' | Some s \<Rightarrow> s)"

text \<open>Truthiness of an optional string: absent and empty are both falsy.\<close>

definition truthy :: "string option \<Rightarrow> bool" where
  "truthy v = (case v of None \<Rightarrow> False | Some s \<Rightarrow> s \<noteq> [])"

text \<open>\<open>a || b\<close> for an optional string \<open>a\<close> and a string \<open>b\<close>.\<close>

definition or_str :: "string option \<Rightarrow> string \<Rightarrow> string" where
  "or_str a b = (case a of None \<Rightarrow> b | Some s \<Rightarrow> if s \<noteq> [] then s else b)"

text \<open>Decimal rendering of a non-negative integer, as a template literal prints it.\<close>

definition digit_char :: "nat \<Rightarrow> char" where
  "digit_char d = char_of (48 + d)"

function show_nat :: "nat \<Rightarrow> string" where
  "show_nat n = (if n < 10 then [digit_char n] else show_nat (n div 10) @ [digit_char (n mod 10)])"
  by pat_completeness auto
termination
  by (relation "measure id") auto

declare show_nat.simps [simp del]

section \<open>Data model (types.ts)\<close>

datatype EnrichmentStatus = Pending | Processing | Success | Fallback | Error

datatype EnrichmentSource = SourceNone | GeminiWeb | TitleInference

datatype FieldType = FName | FTitle | FCompany | FLinkedinUrl | FEmail | FIgnore

record GroundingLink =
  uri :: string
  link_title :: string

record ColumnMapping =
  header :: string
  mappedTo :: FieldType
  preview :: "string list"
  autoDetected :: bool

text \<open>
  A profile. The interface declares \<open>name\<close>, \<open>title\<close> and \<open>company\<close> as strings, but
  \<open>finalizeProfiles\<close> builds its objects untyped and casts them, so each of them can be
  absent at run time; every field that can be absent is an option here. The field \<open>id\<close>
  is called \<open>profile_id\<close>. The score is a number of the source, read as a real.
\<close>

record Profile =
  profile_id :: string
  name :: "string option"
  title :: "string option"
  company :: "string option"
  region :: "string option"
  linkedin_url :: "string option"
  email :: "string option"
  selected :: "bool option"
  years_of_experience :: "string option"
  background :: "string option"
  what_they_do :: "string option"
  achievements :: "string option"
  skills :: "string list option"
  grounding_urls :: "GroundingLink list option"
  match_reason :: "string option"
  score :: "real option"
  enrichment_status :: EnrichmentStatus
  enrichment_source :: EnrichmentSource

record EnrichmentResult =
  r_years_of_experience :: string
  r_background :: string
  r_what_they_do :: string
  r_achievements :: string
  r_skills :: "string list"
  r_region :: string
  r_is_valid :: bool
  r_grounding_urls :: "GroundingLink list"

record FallbackResult =
  typical_responsibilities :: string
  typical_skills :: "string list"

text \<open>The errors of the model: a \<open>TypeError\<close> of the runtime (a method called on
  \<open>undefined\<close>) and a failure of a call to the provider.\<close>

datatype error = TypeError | ProviderError

section \<open>Tokenizer: \<open>parseRawCSV\<close> (services/csv.ts)\<close>

record ParsedCSV =
  headers :: "string list"
  rows :: "string list list"

text \<open>
  The scan loop of \<open>parseRawCSV\<close>. The arguments are the text from position \<open>i\<close> on and
  the loop's variables \<open>inQuotes\<close>, \<open>currField\<close>, \<open>row\<close> and \<open>result\<close>; \<open>nextChar\<close> is the
  head of the remaining text, absent at the end of the input. Where the source skips a
  character (\<open>i++\<close> inside the body) the recursion drops it.
\<close>

function scanCSV :: "string \<Rightarrow> bool \<Rightarrow> string \<Rightarrow> string list \<Rightarrow> string list list
    \<Rightarrow> string list list \<times> string list \<times> string" where
  "scanCSV [] inQuotes currField row result = (result, row, currField)"
| "scanCSV (c # cs) inQuotes currField row result =
     (let nextChar = (case cs of [] \<Rightarrow> None | n # _ \<Rightarrow> Some n) in
      if inQuotes then
        (if c = dquote \<and> nextChar = Some dquote then
           scanCSV (tl cs) True (currField @ [dquote]) row result
         else if c = dquote then
           scanCSV cs False currField row result
         else
           scanCSV cs True (currField @ [c]) row result)
      else
        (if c = dquote then
           scanCSV cs True currField row result
         else if c = CHR '','' then
           scanCSV cs False [] (row @ [trim currField]) result
         else if c = LF \<or> (c = CR \<and> nextChar = Some LF) then
           scanCSV (if c = CR then tl cs else cs) False [] []
             (result @ [row @ [trim currField]])
         else if c = CR \<and> nextChar \<noteq> Some LF then
           scanCSV cs False [] [] (result @ [row @ [trim currField]])
         else
           scanCSV cs False (currField @ [c]) row result))"
  by pat_completeness auto
termination
  by (relation "measure (\<lambda>(t, q, f, r, res). length t)") auto

definition parseRawCSV :: "string \<Rightarrow> ParsedCSV" where
  "parseRawCSV text =
     (case scanCSV text False [] [] [] of
        (result, row, currField) \<Rightarrow>
          (let result' = (if row \<noteq> [] \<or> currField \<noteq> []
                          then result @ [row @ [trim currField]] else result)
           in \<lparr> headers = (case result' of [] \<Rightarrow> [] | h # _ \<Rightarrow> h),
                rows = drop 1 result' \<rparr>))"

section \<open>Cell cleaning: \<open>cleanLumaGarbage\<close> (services/csv.ts)\<close>

text \<open>The dot of a regular expression matches every character but a line terminator.\<close>

definition is_line_term :: "char \<Rightarrow> bool" where
  "is_line_term c \<longleftrightarrow> c = LF \<or> c = CR"

text \<open>\<open>val.split(/\r?\n/)[0]\<close>: the text before the first line feed, without the carriage
  return that may precede that line feed; the whole text when it has no line feed.\<close>

definition first_line :: "string \<Rightarrow> string" where
  "first_line val =
     (let pre = takeWhile (\<lambda>c. c \<noteq> LF) val in
      if pre \<noteq> val \<and> pre \<noteq> [] \<and> last pre = CR then butlast pre else pre)"

text \<open>The match of \<open>.*?\]\<close> at the start of a text: what follows the nearest closing
  bracket, if one comes before any line terminator.\<close>

fun close_bracket :: "string \<Rightarrow> string option" where
  "close_bracket [] = None"
| "close_bracket (c # cs) =
     (if c = CHR '']'' then Some cs else if is_line_term c then None else close_bracket cs)"

text \<open>\<open>.replace(/\[.*?\]/g, '')\<close>.\<close>

function strip_brackets :: "string \<Rightarrow> string" where
  "strip_brackets [] = []"
| "strip_brackets (c # cs) =
     (if c = CHR ''['' then
        (case close_bracket cs of
           Some rest \<Rightarrow> strip_brackets rest
         | None \<Rightarrow> c # strip_brackets cs)
      else c # strip_brackets cs)"
  by pat_completeness auto
termination
proof -
  have shorter: "length rest < length cs" if "close_bracket cs = Some rest" for cs rest
    using that by (induction cs) (auto split: if_splits)
  show ?thesis
    by (relation "measure length") (auto dest: shorter)
qed

text \<open>A case-insensitive match of a literal at the start of a text (flag \<open>i\<close>).\<close>

definition ci_prefix :: "string \<Rightarrow> string \<Rightarrow> bool" where
  "ci_prefix pat s \<longleftrightarrow> prefix (toLowerCase pat) (toLowerCase s)"

text \<open>\<open>.replace(/pat.*/gi, '')\<close> for a literal \<open>pat\<close> that is not empty and has no line
  terminator: every match runs from an occurrence of \<open>pat\<close> to the end of its line.\<close>

function remove_to_eol :: "string \<Rightarrow> string \<Rightarrow> string" where
  "remove_to_eol pat [] = []"
| "remove_to_eol pat (c # cs) =
     (if ci_prefix pat (c # cs) then remove_to_eol pat (dropWhile (\<lambda>x. \<not> is_line_term x) cs)
      else c # remove_to_eol pat cs)"
  by pat_completeness auto
termination
  by (relation "measure (\<lambda>(pat, s). length s)")
     (auto simp: less_Suc_eq_le length_dropWhile_le)

text \<open>\<open>.replace(/pat/gi, '')\<close> for a literal \<open>pat\<close> that is not empty.\<close>

function remove_all :: "string \<Rightarrow> string \<Rightarrow> string" where
  "remove_all pat [] = []"
| "remove_all pat (c # cs) =
     (if ci_prefix pat (c # cs) then remove_all pat (drop (length pat - 1) cs)
      else c # remove_all pat cs)"
  by pat_completeness auto
termination
  by (relation "measure (\<lambda>(pat, s). length s)") auto

definition placeholders :: "string list" where
  "placeholders = [''n/a'', ''na'', ''none'', ''.'', ''0'', ''not applicable'', ''#n/a'']"

definition cleanLumaGarbage :: "string option \<Rightarrow> string" where
  "cleanLumaGarbage val =
     (if \<not> truthy val then []
      else
        (let cleaned =
           trim (remove_to_eol ''|''
             (remove_all ''registered for your event''
               (remove_to_eol ''has registered for''
                 (strip_brackets (first_line (the val))))))
         in if toLowerCase cleaned \<in> set placeholders then [] else cleaned))"

section \<open>Mapping inferencer: \<open>detectMappings\<close> (services/csv.ts)\<close>

text \<open>The callback of \<open>headers.map((header, idx) => ...)\<close>: the first rule whose word the
  lower-cased header contains decides the field.\<close>

definition detectMapping :: "string list list \<Rightarrow> nat \<times> string \<Rightarrow> ColumnMapping" where
  "detectMapping rs = (\<lambda>(idx, hdr).
     (let h = toLowerCase hdr;
          mapped = (if str_includes h ''name'' then FName
                    else if str_includes h ''title'' \<or> str_includes h ''role'' then FTitle
                    else if str_includes h ''company'' \<or> str_includes h ''work'' then FCompany
                    else if str_includes h ''linkedin'' \<or> str_includes h ''profile'' then FLinkedinUrl
                    else if str_includes h ''email'' then FEmail
                    else FIgnore);
          preview' = filter (\<lambda>v. v \<noteq> [])
                       (map (\<lambda>r. or_str (elem_at r idx) []) (take 3 rs))
      in \<lparr> header = hdr, mappedTo = mapped, preview = preview', autoDetected = (mapped \<noteq> FIgnore) \<rparr>))"

definition detectMappings :: "string list \<Rightarrow> string list list \<Rightarrow> ColumnMapping list" where
  "detectMappings hs rs = map (detectMapping rs) (enumerate 0 hs)"

section \<open>Record finalizer: \<open>finalizeProfiles\<close> (services/csv.ts)\<close>

text \<open>The match of \<open>https?:\/\/[^\s\]]+\<close> anchored at the start of a text.\<close>

definition url_at :: "string \<Rightarrow> string option" where
  "url_at s =
     (let scheme = (if prefix ''https://'' s then Some ''https://''
                    else if prefix ''http://'' s then Some ''http://'' else None)
      in case scheme of
           None \<Rightarrow> None
         | Some sch \<Rightarrow>
             (let body = takeWhile (\<lambda>c. \<not> is_space c \<and> c \<noteq> CHR '']'') (drop (length sch) s)
              in if body = [] then None else Some (sch @ body)))"

text \<open>\<open>val.match(/https?:\/\/[^\s\]]+/)\<close>: the leftmost match, if any.\<close>

fun find_url :: "string \<Rightarrow> string option" where
  "find_url [] = None"
| "find_url (c # cs) = (case url_at (c # cs) of Some u \<Rightarrow> Some u | None \<Rightarrow> find_url cs)"

text \<open>The object each row starts from, with the identifier given.\<close>

definition initialProfile :: "string \<Rightarrow> Profile" where
  "initialProfile ident =
     \<lparr> profile_id = ident, name = None, title = None, company = None, region = None,
       linkedin_url = None, email = None, selected = Some True,
       years_of_experience = None, background = None, what_they_do = None,
       achievements = None, skills = None, grounding_urls = None,
       match_reason = None, score = None,
       enrichment_status = Pending, enrichment_source = SourceNone \<rparr>"

text \<open>The assignment \<open>profile[m.mappedTo] = v\<close> of the last branch, reached for \<open>title\<close>,
  \<open>company\<close> and \<open>email\<close>.\<close>

definition assignField :: "FieldType \<Rightarrow> string \<Rightarrow> Profile \<Rightarrow> Profile" where
  "assignField f v profile =
     (case f of
        FTitle \<Rightarrow> profile\<lparr>title := Some v\<rparr>
      | FCompany \<Rightarrow> profile\<lparr>company := Some v\<rparr>
      | FEmail \<Rightarrow> profile\<lparr>email := Some v\<rparr>
      | FName \<Rightarrow> profile\<lparr>name := Some v\<rparr>
      | FLinkedinUrl \<Rightarrow> profile\<lparr>linkedin_url := Some v\<rparr>
      | FIgnore \<Rightarrow> profile)"

text \<open>The body of \<open>mappings.forEach((m, colIdx) => ...)\<close>, on the profile built so far.\<close>

definition applyMapping :: "string list \<Rightarrow> nat \<times> ColumnMapping \<Rightarrow> Profile \<Rightarrow> Profile" where
  "applyMapping row = (\<lambda>(colIdx, m) profile.
     if mappedTo m \<noteq> FIgnore then
       (let val = elem_at row colIdx in
        if mappedTo m = FName then
          profile\<lparr>name := Some (or_str (Some (cleanLumaGarbage val)) ''Unknown Attendee'')\<rparr>
        else if mappedTo m = FLinkedinUrl then
          profile\<lparr>linkedin_url := (case val of None \<Rightarrow> None | Some v \<Rightarrow> find_url v)\<rparr>
        else assignField (mappedTo m) (cleanLumaGarbage val) profile)
     else profile)"

text \<open>The callback of \<open>rows.map((row, rowIdx) => ...)\<close>. \<open>now rowIdx\<close> is the value that
  \<open>Date.now()\<close> returns when the identifier of that row is built.\<close>

definition finalizeRow :: "(nat \<Rightarrow> nat) \<Rightarrow> ColumnMapping list \<Rightarrow> nat \<times> string list \<Rightarrow> Profile" where
  "finalizeRow now mappings = (\<lambda>(rowIdx, row).
     fold (applyMapping row) (enumerate 0 mappings)
       (initialProfile (''profile-'' @ show_nat rowIdx @ ''-'' @ show_nat (now rowIdx))))"

definition finalizeProfiles :: "(nat \<Rightarrow> nat) \<Rightarrow> ColumnMapping list \<Rightarrow> string list list \<Rightarrow> Profile list" where
  "finalizeProfiles now mappings rs = map (finalizeRow now mappings) (enumerate 0 rs)"

section \<open>Tabular restore: \<open>parseEnrichedCSV\<close> (services/csv.ts)\<close>

text \<open>\<open>.replace(/["']/g, '')\<close>.\<close>

definition remove_quotes :: "string \<Rightarrow> string" where
  "remove_quotes s = filter (\<lambda>c. c \<noteq> dquote \<and> c \<noteq> squote) s"

text \<open>\<open>.replace(/^"|"$/g, '')\<close>: a double quote at the very start and one at the very end
  are dropped.\<close>

definition strip_outer_quotes :: "string \<Rightarrow> string" where
  "strip_outer_quotes s =
     (let s1 = (case s of [] \<Rightarrow> [] | c # cs \<Rightarrow> if c = dquote then cs else s)
      in if s1 \<noteq> [] \<and> last s1 = dquote then butlast s1 else s1)"

text \<open>\<open>String.prototype.split\<close> on one separator character; \<open>cur\<close> is the piece being
  read.\<close>

fun split_on :: "char \<Rightarrow> string \<Rightarrow> string \<Rightarrow> string list" where
  "split_on d cur [] = [cur]"
| "split_on d cur (c # cs) =
     (if c = d then cur # split_on d [] cs else split_on d (cur @ [c]) cs)"

text \<open>\<open>(idx !== -1 ? row[idx] : dflt).replace(/^"|"$/g, '')\<close>: when the column exists but
  the row is too short the receiver is \<open>undefined\<close> and the call raises.\<close>

definition restoredCell :: "nat option \<Rightarrow> string list \<Rightarrow> string \<Rightarrow> error + string" where
  "restoredCell idx row dflt =
     (case idx of
        None \<Rightarrow> Inr (strip_outer_quotes dflt)
      | Some k \<Rightarrow>
          (case elem_at row k of
             None \<Rightarrow> Inl TypeError
           | Some v \<Rightarrow> Inr (strip_outer_quotes v)))"

definition restoredSkills :: "nat option \<Rightarrow> string list \<Rightarrow> string list" where
  "restoredSkills skillsIdx row =
     (let skillsRaw = (case skillsIdx of None \<Rightarrow> Some [] | Some k \<Rightarrow> elem_at row k)
      in if truthy skillsRaw
         then filter (\<lambda>s. s \<noteq> [])
                (map (\<lambda>s. strip_outer_quotes (trim s)) (split_on CHR '','' [] (the skillsRaw)))
         else [])"

text \<open>Sequencing of computations that may raise: the first error ends the sequence.\<close>

definition and_then :: "error + 'a \<Rightarrow> ('a \<Rightarrow> error + 'b) \<Rightarrow> error + 'b" where
  "and_then r f = (case r of Inl e \<Rightarrow> Inl e | Inr v \<Rightarrow> f v)"

text \<open>The callback of \<open>rows.map((row, i) => ...)\<close>; the fields are evaluated in the order
  of the object literal, and the first one that raises ends the call.\<close>

definition restoreRow :: "(nat \<Rightarrow> nat) \<Rightarrow> string list \<Rightarrow> nat \<times> string list \<Rightarrow> error + Profile" where
  "restoreRow now h = (\<lambda>(i, row).
     (let skills' = restoredSkills (indexOf h ''skills'') row in
      and_then (restoredCell (indexOf h ''name'') row ''Unknown'') (\<lambda>name'.
      and_then (restoredCell (indexOf h ''title'') row []) (\<lambda>title'.
      and_then (restoredCell (indexOf h ''company'') row []) (\<lambda>company'.
      and_then (restoredCell (indexOf h ''region'') row []) (\<lambda>region'.
      and_then (restoredCell (indexOf h ''linkedin'') row []) (\<lambda>linkedin'.
      and_then (restoredCell (indexOf h ''years of experience'') row []) (\<lambda>exp'.
      and_then (restoredCell (indexOf h ''background'') row []) (\<lambda>background'.
      and_then (restoredCell (indexOf h ''responsibilities'') row []) (\<lambda>resp'.
      and_then (restoredCell (indexOf h ''achievements'') row []) (\<lambda>achieve'.
        Inr \<lparr> profile_id = ''restored-'' @ show_nat i @ ''-'' @ show_nat (now i),
              name = Some name', title = Some title', company = Some company',
              region = Some region', linkedin_url = Some linkedin', email = None,
              selected = Some True, years_of_experience = Some exp',
              background = Some background', what_they_do = Some resp',
              achievements = Some achieve', skills = Some skills', grounding_urls = None,
              match_reason = None, score = None,
              enrichment_status = Success, enrichment_source = GeminiWeb \<rparr>)))))))))))"

text \<open>\<open>Array.prototype.map\<close> with a callback that may raise: the first error ends it.\<close>

fun map_result :: "('a \<Rightarrow> error + 'b) \<Rightarrow> 'a list \<Rightarrow> error + 'b list" where
  "map_result f [] = Inr []"
| "map_result f (x # xs) =
     (case f x of
        Inl e \<Rightarrow> Inl e
      | Inr y \<Rightarrow> (case map_result f xs of Inl e \<Rightarrow> Inl e | Inr ys \<Rightarrow> Inr (y # ys)))"

definition parseEnrichedCSV :: "(nat \<Rightarrow> nat) \<Rightarrow> string list \<Rightarrow> string list list \<Rightarrow> error + Profile list" where
  "parseEnrichedCSV now hs rs =
     (let h = map (\<lambda>header. trim (remove_quotes (toLowerCase header))) hs
      in map_result (restoreRow now h) (enumerate 0 rs))"

section \<open>Tabular export: \<open>exportToCSV\<close> (services/csv.ts)\<close>

text \<open>\<open>.replace(/"/g, '""')\<close>.\<close>

definition double_quotes :: "string \<Rightarrow> string" where
  "double_quotes s = concat (map (\<lambda>c. if c = dquote then [dquote, dquote] else [c]) s)"

text \<open>The template \<open>`"${v.replace(/"/g, '""')}"`\<close>.\<close>

definition quoted :: "string \<Rightarrow> string" where
  "quoted v = [dquote] @ double_quotes v @ [dquote]"

definition csvHeaders :: "string list" where
  "csvHeaders = [''Name'', ''Title'', ''Company'', ''Region'', ''LinkedIn'',
     ''Years of Experience'', ''Background'', ''Responsibilities'', ''Achievements'', ''Skills'']"

text \<open>The callback of \<open>profiles.map(p => [...].join(','))\<close>. \<open>p.name.replace\<close> has no
  guard: an absent name raises.\<close>

definition exportFields :: "Profile \<Rightarrow> error + string list" where
  "exportFields p =
     (case name p of
        None \<Rightarrow> Inl TypeError
      | Some n \<Rightarrow>
          Inr [quoted n,
               quoted (or_str (title p) []),
               quoted (or_str (company p) []),
               quoted (or_str (region p) []),
               quoted (or_str (linkedin_url p) []),
               quoted (or_str (years_of_experience p) []),
               quoted (or_str (background p) []),
               quoted (or_str (what_they_do p) []),
               quoted (or_str (achievements p) []),
               quoted (join '', '' (case skills p of None \<Rightarrow> [] | Some ss \<Rightarrow> ss))])"

definition exportRow :: "Profile \<Rightarrow> error + string" where
  "exportRow p = (case exportFields p of Inl e \<Rightarrow> Inl e | Inr fs \<Rightarrow> Inr (join '','' fs))"

definition exportToCSV :: "Profile list \<Rightarrow> error + string" where
  "exportToCSV profiles =
     (case map_result exportRow profiles of
        Inl e \<Rightarrow> Inl e
      | Inr rs \<Rightarrow> Inr (join [LF] (join '','' csvHeaders # rs)))"

section \<open>The provider's capabilities (services/gemini.ts)\<close>

record RoleInfo =
  role_title :: string
  role_company :: string
  role_region :: string

record Recommendation =
  rec_id :: string
  rec_score :: real
  reason :: string

record WebRef =
  web_uri :: "string option"
  web_title :: "string option"

text \<open>
  The provider is outside the program. Its answer to a request (the call of
  \<open>generateContent\<close> and the parse of the reply, which either yield a value or raise) is
  a parameter of the model: a function of the values the prompt is built from and, for
  the calls made once per record, of the position \<open>i\<close> of the record being processed, so
  that two calls with equal arguments may be answered differently. The reply to the
  extraction request comes with its optional list of grounding chunks, each with an
  optional \<open>web\<close> part.

  The source does not validate what \<open>JSON.parse\<close> returns. For the identify request the
  parsed reply is an optional \<^typ>\<open>RoleInfo\<close>: \<open>None\<close> stands for the reply \<open>null\<close>, on
  which reading a field raises a \<open>TypeError\<close>. A reply that is a number, a string, an
  array or an object without the three keys reads as \<open>undefined\<close> at each field and
  behaves as three empty strings do. The replies to the other requests are taken with
  their declared types; field values of another type than declared are not modelled.
\<close>

record Backend =
  gen_identify :: "nat \<Rightarrow> string option \<Rightarrow> string option \<Rightarrow> error + RoleInfo option"
  gen_extract :: "nat \<Rightarrow> string option \<Rightarrow> string option \<Rightarrow> string option \<Rightarrow> string option
                    \<Rightarrow> error + EnrichmentResult \<times> WebRef option list option"
  gen_infer :: "nat \<Rightarrow> string option \<Rightarrow> string option \<Rightarrow> error + FallbackResult"
  gen_recommend :: "string \<Rightarrow> (string \<times> string) list \<Rightarrow> error + Recommendation list"

text \<open>\<open>identifyRole\<close>: a failure is caught and answered with three empty strings; a parsed
  reply is returned as it is.\<close>

definition identifyRole :: "Backend \<Rightarrow> nat \<Rightarrow> string option \<Rightarrow> string option \<Rightarrow> RoleInfo option" where
  "identifyRole B i name' linkedinUrl =
     (case gen_identify B i name' linkedinUrl of
        Inl e \<Rightarrow> Some \<lparr> role_title = [], role_company = [], role_region = [] \<rparr>
      | Inr r \<Rightarrow> r)"

text \<open>The loop over the grounding chunks in \<open>enrichWithGemini\<close>.\<close>

definition groundingUrls :: "WebRef option list option \<Rightarrow> GroundingLink list" where
  "groundingUrls chunks =
     (case chunks of
        None \<Rightarrow> []
      | Some cs \<Rightarrow>
          concat (map (\<lambda>chunk.
            case chunk of
              None \<Rightarrow> []
            | Some w \<Rightarrow>
                if truthy (web_uri w)
                then [\<lparr> uri = the (web_uri w), link_title = or_str (web_title w) ''Source'' \<rparr>]
                else []) cs))"

text \<open>\<open>enrichWithGemini\<close>: a failure is logged and raised again.\<close>

definition enrichWithGemini ::
    "Backend \<Rightarrow> nat \<Rightarrow> string option \<Rightarrow> string option \<Rightarrow> string option \<Rightarrow> string option
       \<Rightarrow> error + EnrichmentResult" where
  "enrichWithGemini B i name' title' company' linkedinUrl =
     (case gen_extract B i name' title' company' linkedinUrl of
        Inl e \<Rightarrow> Inl e
      | Inr (result, chunks) \<Rightarrow> Inr (result\<lparr>r_grounding_urls := groundingUrls chunks\<rparr>))"

text \<open>\<open>inferFromTitle\<close>: no request when both arguments are falsy; a failure is caught.\<close>

definition inferFromTitle :: "Backend \<Rightarrow> nat \<Rightarrow> string option \<Rightarrow> string option \<Rightarrow> FallbackResult" where
  "inferFromTitle B i title' company' =
     (if \<not> truthy title' \<and> \<not> truthy company' then
        \<lparr> typical_responsibilities = ''Information unavailable.'',
          typical_skills = [''Professional''] \<rparr>
      else
        (case gen_infer B i title' company' of
           Inl e \<Rightarrow> \<lparr> typical_responsibilities = ''N/A'', typical_skills = [] \<rparr>
         | Inr r \<Rightarrow> r))"

text \<open>The condensed text of a profile that \<open>recommendProfiles\<close> sends.\<close>

definition profileInfo :: "Profile \<Rightarrow> string" where
  "profileInfo p =
     template (name p) @ '', '' @ template (title p) @ '' @ '' @ template (company p) @ '' in ''
       @ template (region p) @ ''. Background: '' @ template (background p) @ ''. Skills: ''
       @ join '', '' (case skills p of None \<Rightarrow> [] | Some ss \<Rightarrow> ss)"

text \<open>\<open>recommendProfiles\<close>: a failure is caught and answered with the empty list.\<close>

definition recommendProfiles :: "Backend \<Rightarrow> string \<Rightarrow> Profile list \<Rightarrow> Recommendation list" where
  "recommendProfiles B query profiles =
     (case gen_recommend B query (map (\<lambda>p. (profile_id p, profileInfo p)) profiles) of
        Inl e \<Rightarrow> []
      | Inr rs \<Rightarrow> rs)"

section \<open>Enrichment orchestrator: \<open>startEnrichment\<close>\<close>

text \<open>\<open>a || b\<close> for a string \<open>a\<close> and an optional string \<open>b\<close>.\<close>

definition or_opt :: "string \<Rightarrow> string option \<Rightarrow> string option" where
  "or_opt a b = (if a \<noteq> [] then Some a else b)"

text \<open>The role discovery at the head of the loop body: the values of \<open>currentTitle\<close>
  and \<open>currentCompany\<close> after it. The record \<open>p\<close> itself is not assigned to, and the
  region of the answer is not read. The step stands outside the \<open>try\<close> of the loop body:
  reading \<open>discovered.title\<close> on the reply \<open>null\<close> raises, and nothing catches it.\<close>

definition discoverRole :: "Backend \<Rightarrow> nat \<Rightarrow> Profile \<Rightarrow> error + string option \<times> string option" where
  "discoverRole B i p =
     (let currentTitle = title p; currentCompany = company p in
      if \<not> truthy currentTitle \<or> \<not> truthy currentCompany then
        (case identifyRole B i (name p) (linkedin_url p) of
           None \<Rightarrow> Inl TypeError
         | Some discovered \<Rightarrow>
             Inr (or_opt (role_title discovered) currentTitle,
                  or_opt (role_company discovered) currentCompany))
      else Inr (currentTitle, currentCompany))"

text \<open>
  The \<open>try\<close> statement of the loop body: the record pushed onto \<open>enriched\<close> for the
  record \<open>p\<close> with the current title and company. The object spreads
  \<open>{...p, ...result, title: ..., ...}\<close> are written as record updates; the key \<open>is_valid\<close>
  that the spread of \<open>result\<close> also copies is no field of a profile and is left out. The
  progress display and the pauses between calls are not modelled.
\<close>

definition enrichRecord :: "Backend \<Rightarrow> nat \<Rightarrow> Profile \<Rightarrow> string option \<Rightarrow> string option \<Rightarrow> Profile" where
  "enrichRecord B i p currentTitle currentCompany =
     (case enrichWithGemini B i (name p) currentTitle currentCompany (linkedin_url p) of
        Inr result \<Rightarrow>
          (if r_is_valid result then
             p\<lparr> years_of_experience := Some (r_years_of_experience result),
                background := Some (r_background result),
                what_they_do := Some (r_what_they_do result),
                achievements := Some (r_achievements result),
                skills := Some (r_skills result),
                region := Some (r_region result),
                grounding_urls := Some (r_grounding_urls result),
                title := currentTitle,
                company := currentCompany,
                enrichment_status := Success,
                enrichment_source := GeminiWeb \<rparr>
           else
             (let fallback = inferFromTitle B i currentTitle currentCompany in
              p\<lparr> background := Some ''Professional connection.'',
                 what_they_do := Some (typical_responsibilities fallback),
                 skills := Some (typical_skills fallback),
                 title := currentTitle,
                 company := currentCompany,
                 enrichment_status := Fallback,
                 enrichment_source := TitleInference \<rparr>))
      | Inl e \<Rightarrow> p\<lparr> enrichment_status := Error, enrichment_source := SourceNone \<rparr>)"

text \<open>One turn of the loop for \<open>profiles[i]\<close>: the record it pushes, or the error that
  leaves the loop.\<close>

definition enrichOne :: "Backend \<Rightarrow> nat \<Rightarrow> Profile \<Rightarrow> error + Profile" where
  "enrichOne B i p =
     (case discoverRole B i p of
        Inl e \<Rightarrow> Inl e
      | Inr (currentTitle, currentCompany) \<Rightarrow> Inr (enrichRecord B i p currentTitle currentCompany))"

text \<open>The loop \<open>for (let i = 0; i < profiles.length; i++)\<close>: the profiles from position
  \<open>i\<close> on, and the list \<open>enriched\<close> built so far. An error of a turn ends the loop, and
  everything after it with it.\<close>

fun enrichLoop :: "Backend \<Rightarrow> nat \<Rightarrow> Profile list \<Rightarrow> Profile list \<Rightarrow> error + Profile list" where
  "enrichLoop B i [] enriched = Inr enriched"
| "enrichLoop B i (p # ps) enriched =
     (case enrichOne B i p of
        Inl e \<Rightarrow> Inl e
      | Inr r \<Rightarrow> enrichLoop B (Suc i) ps (enriched @ [r]))"

text \<open>\<open>startEnrichment\<close>: the list handed to \<open>onComplete\<close>, or the error with which the
  function ends without calling \<open>onComplete\<close>.\<close>

definition startEnrichment :: "Backend \<Rightarrow> Profile list \<Rightarrow> error + Profile list" where
  "startEnrichment B profiles = enrichLoop B 0 profiles []"

section \<open>Identification pass after the mapping: \<open>handleFinalize\<close>\<close>

text \<open>The body of the loop of \<open>handleFinalize\<close>, which assigns to the record itself. Here
  the call and the three assignments stand inside a \<open>try\<close>: on the reply \<open>null\<close> the first
  right-hand side raises, nothing is assigned, and the error is caught.\<close>

definition identifyMissing :: "Backend \<Rightarrow> nat \<times> Profile \<Rightarrow> Profile" where
  "identifyMissing B = (\<lambda>(i, p).
     if \<not> truthy (title p) \<or> \<not> truthy (company p) then
       (case identifyRole B i (name p) (linkedin_url p) of
          None \<Rightarrow> p
        | Some roleInfo \<Rightarrow>
            p\<lparr> title := or_opt (role_title roleInfo) (title p),
               company := or_opt (role_company roleInfo) (company p),
               region := or_opt (role_region roleInfo) (region p) \<rparr>)
     else p)"

definition handleFinalize ::
    "Backend \<Rightarrow> (nat \<Rightarrow> nat) \<Rightarrow> ColumnMapping list \<Rightarrow> string list list \<Rightarrow> Profile list" where
  "handleFinalize B now mappings rs =
     (let initialProfiles = finalizeProfiles now mappings rs;
          missingRoles = filter (\<lambda>p. \<not> truthy (title p) \<or> \<not> truthy (company p)) initialProfiles
      in if missingRoles \<noteq> [] then map (identifyMissing B) (enumerate 0 initialProfiles)
         else initialProfiles)"

section \<open>Search and ranking: \<open>handleAgentSearch\<close>\<close>

text \<open>\<open>Array.prototype.sort\<close> with a comparator, as the language defines it: stable, an
  element \<open>a\<close> stays before \<open>b\<close> unless the comparator is positive on \<open>(a, b)\<close>. Written as
  an insertion sort from the right.\<close>

fun insertBy :: "('a \<Rightarrow> 'a \<Rightarrow> real) \<Rightarrow> 'a \<Rightarrow> 'a list \<Rightarrow> 'a list" where
  "insertBy cmp x [] = [x]"
| "insertBy cmp x (y # ys) = (if cmp x y \<le> 0 then x # y # ys else y # insertBy cmp x ys)"

definition sortBy :: "('a \<Rightarrow> 'a \<Rightarrow> real) \<Rightarrow> 'a list \<Rightarrow> 'a list" where
  "sortBy cmp xs = foldr (insertBy cmp) xs []"

text \<open>\<open>x || 0\<close> for an optional number.\<close>

definition or_zero :: "real option \<Rightarrow> real" where
  "or_zero x = (case x of None \<Rightarrow> 0 | Some v \<Rightarrow> v)"

text \<open>\<open>new Map(recommendations.map(r => [r.id, r]))\<close>: a later entry replaces an earlier
  one with the same key.\<close>

definition recMapOf :: "Recommendation list \<Rightarrow> string \<rightharpoonup> Recommendation" where
  "recMapOf recommendations = map_of (rev (map (\<lambda>r. (rec_id r, r)) recommendations))"

definition haystack :: "Profile \<Rightarrow> string" where
  "haystack p =
     toLowerCase (template (name p) @ '' '' @ template (title p) @ '' '' @ template (company p)
       @ '' '' @ template (background p) @ '' ''
       @ join '' '' (case skills p of None \<Rightarrow> [] | Some ss \<Rightarrow> ss))"

text \<open>The value \<open>handleAgentSearch\<close> passes to \<open>setResults\<close>, from the profiles of the page,
  the text of the search box and the selected region.\<close>

definition handleAgentSearch :: "Backend \<Rightarrow> Profile list \<Rightarrow> string \<Rightarrow> string \<Rightarrow> Profile list" where
  "handleAgentSearch B profiles searchQuery selectedRegion =
     (let q = trim (toLowerCase searchQuery);
          filtered = (if selectedRegion \<noteq> ''All Regions''
                      then filter (\<lambda>p. region p = Some selectedRegion) profiles
                      else profiles)
      in if q = [] then filtered
         else if length q > 10 then
           (let recommendations = recommendProfiles B q filtered in
            if length recommendations > 0 then
              (let recMap = recMapOf recommendations in
               sortBy (\<lambda>a b. or_zero (score b) - or_zero (score a))
                 (map (\<lambda>p. p\<lparr> score := map_option rec_score (recMap (profile_id p)),
                               match_reason := map_option reason (recMap (profile_id p)) \<rparr>)
                   (filter (\<lambda>p. recMap (profile_id p) \<noteq> None) filtered)))
            else filter (\<lambda>p. str_includes (haystack p) q) filtered)
         else filter (\<lambda>p. str_includes (haystack p) q) filtered)"

section \<open>Reference formulations\<close>

text \<open>
  The definitions of this section are not translations of code: they word the properties
  that the functions above are compared with.
\<close>

text \<open>The reading of a quoted body: a pair of double quotes stands for one, a single
  double quote is not allowed.\<close>

fun undouble :: "string \<Rightarrow> string option" where
  "undouble [] = Some []"
| "undouble [c] = (if c = dquote then None else Some [c])"
| "undouble (c # d # cs) =
     (if c = dquote then (if d = dquote then map_option ((#) dquote) (undouble cs) else None)
      else map_option ((#) c) (undouble (d # cs)))"

text \<open>\<open>s\<close> is \<open>v\<close> enclosed in double quotes, with each double quote of \<open>v\<close> doubled.\<close>

definition is_csv_quoted :: "string \<Rightarrow> string \<Rightarrow> bool" where
  "is_csv_quoted v s \<longleftrightarrow>
     (case s of
        [] \<Rightarrow> False
      | c # rest \<Rightarrow> c = dquote \<and> rest \<noteq> [] \<and> last rest = dquote \<and> undouble (butlast rest) = Some v)"

text \<open>The values of the ten columns of a profile, in the order of the header row.\<close>

definition exportValues :: "Profile \<Rightarrow> string list" where
  "exportValues p =
     [or_str (name p) [], or_str (title p) [], or_str (company p) [], or_str (region p) [],
      or_str (linkedin_url p) [], or_str (years_of_experience p) [], or_str (background p) [],
      or_str (what_they_do p) [], or_str (achievements p) [],
      join '', '' (case skills p of None \<Rightarrow> [] | Some ss \<Rightarrow> ss)]"

text \<open>The candidates of a search: the profiles of the selected region, or all of them.\<close>

definition regionFiltered :: "Profile list \<Rightarrow> string \<Rightarrow> Profile list" where
  "regionFiltered profiles selectedRegion =
     (if selectedRegion = ''All Regions'' then profiles
      else filter (\<lambda>p. region p = Some selectedRegion) profiles)"

text \<open>The hit of a profile identifier in a ranking: the last one with that identifier.\<close>

definition lastHit :: "Recommendation list \<Rightarrow> string \<Rightarrow> Recommendation option" where
  "lastHit recs pid =
     (if filter (\<lambda>r. rec_id r = pid) recs = [] then None
      else Some (last (filter (\<lambda>r. rec_id r = pid) recs)))"

text \<open>A candidate with the score and the reason of its hit attached.\<close>

definition withHit :: "Recommendation list \<Rightarrow> Profile \<Rightarrow> Profile" where
  "withHit recs p =
     p\<lparr> score := map_option rec_score (lastHit recs (profile_id p)),
        match_reason := map_option reason (lastHit recs (profile_id p)) \<rparr>"

text \<open>The text of a field, empty when the field is absent.\<close>

definition field_text :: "string option \<Rightarrow> string" where
  "field_text v = (case v of None \<Rightarrow> [] | Some s \<Rightarrow> s)"

text \<open>The lower-cased text of the name, the title, the company, the background and the
  skills of a record, the five parts and the skills joined by \<open>sep\<close>: the plain
  concatenation for the empty \<open>sep\<close>, the parts separated by single spaces for a space.\<close>

definition fieldsHaystack :: "string \<Rightarrow> Profile \<Rightarrow> string" where
  "fieldsHaystack sep p =
     toLowerCase (join sep
       [field_text (name p), field_text (title p), field_text (company p),
        field_text (background p), join sep (case skills p of None \<Rightarrow> [] | Some ss \<Rightarrow> ss)])"

text \<open>A record that has a name, a title, a company and a background.\<close>

definition complete :: "Profile \<Rightarrow> bool" where
  "complete p \<longleftrightarrow> name p \<noteq> None \<and> title p \<noteq> None \<and> company p \<noteq> None \<and> background p \<noteq> None"

text \<open>A record whose name is a non-empty string.\<close>

definition name_ok :: "Profile \<Rightarrow> bool" where
  "name_ok p \<longleftrightarrow> (case name p of None \<Rightarrow> False | Some n \<Rightarrow> n \<noteq> [])"

section \<open>Sample data\<close>

text \<open>A record with a title and an empty company, and two providers: the first fails the
  extraction of the record at position 0, answers the one at position 1 with a valid
  result and every later one with an invalid result; the second differs from it only in
  answering position 0 (with an invalid result).\<close>

definition demoProfile :: Profile where
  "demoProfile = (initialProfile ''profile-0-5'')
     \<lparr> name := Some ''Ann'', title := Some ''CEO'', company := Some [] \<rparr>"

definition demoResult :: "bool \<Rightarrow> EnrichmentResult" where
  "demoResult valid =
     \<lparr> r_years_of_experience = ''8'', r_background = ''Engineer.'', r_what_they_do = ''Builds.'',
       r_achievements = ''Award'', r_skills = [''Go''], r_region = ''Oslo'',
       r_is_valid = valid, r_grounding_urls = [] \<rparr>"

definition demoBackend :: Backend where
  "demoBackend =
     \<lparr> gen_identify = (\<lambda>i n u. Inr (Some \<lparr> role_title = ''CTO'', role_company = ''Acme'', role_region = ''Oslo'' \<rparr>)),
       gen_extract = (\<lambda>i n t c u. if i = 0 then Inl ProviderError else Inr (demoResult (i = 1), None)),
       gen_infer = (\<lambda>i t c. Inr \<lparr> typical_responsibilities = ''Leads the company.'', typical_skills = [''Strategy''] \<rparr>),
       gen_recommend = (\<lambda>q c. Inr []) \<rparr>"

definition demoBackend2 :: Backend where
  "demoBackend2 = demoBackend \<lparr> gen_extract := (\<lambda>i n t c u. Inr (demoResult (i = 1), None)) \<rparr>"

text \<open>The second provider, except that its reply to the identify request for the record
  at position 0 parses to \<open>null\<close>.\<close>

definition nullBackend :: Backend where
  "nullBackend = demoBackend2
     \<lparr> gen_identify := (\<lambda>i n u. if i = 0 then Inr None else gen_identify demoBackend2 i n u) \<rparr>"

text \<open>A file with a single column \<open>Company\<close> and one row.\<close>

definition companyOnlyCSV :: string where
  "companyOnlyCSV = ''Company'' @ [LF] @ ''Acme''"

text \<open>The export of the sample record, and a record whose name contains double quotes.\<close>

definition exportedText :: string where
  "exportedText = ''Name,Title,Company,Region,LinkedIn,Years of Experience,Background,Responsibilities,Achievements,Skills''
     @ [LF] @ [dquote] @ ''Ann'' @ [dquote] @ '','' @ [dquote] @ ''CEO'' @ [dquote]
     @ concat (replicate 8 ('','' @ [dquote, dquote]))"

definition quotedNameProfile :: Profile where
  "quotedNameProfile = demoProfile\<lparr> name := Some (''Ann '' @ [dquote] @ ''Al'' @ [dquote]) \<rparr>"

text \<open>Four enriched records, and a provider whose ranking names three of them (two with
  equal scores) and an identifier that no record has.\<close>

definition searchProfile :: "string \<Rightarrow> string \<Rightarrow> string \<Rightarrow> Profile" where
  "searchProfile ident nm role =
     (initialProfile ident)
       \<lparr> name := Some nm, title := Some role, company := Some ''Acme'', region := Some ''Oslo'',
         background := Some ''Built pipelines.'', skills := Some [''SQL'', ''Spark''],
         enrichment_status := Success, enrichment_source := GeminiWeb \<rparr>"

definition searchProfiles :: "Profile list" where
  "searchProfiles =
     [searchProfile ''b'' ''Bob Roy'' ''Data Engineer II'',
      searchProfile ''d'' ''Dan Poe'' ''Designer'',
      searchProfile ''c'' ''Cy Moe'' ''Senior Data Engineer'',
      searchProfile ''a'' ''Ann Lee'' ''Data Engineer'']"

definition rankHits :: "Recommendation list" where
  "rankHits =
     [\<lparr> rec_id = ''b'', rec_score = 70, reason = ''Same role'' \<rparr>,
      \<lparr> rec_id = ''a'', rec_score = 90, reason = ''Exact role'' \<rparr>,
      \<lparr> rec_id = ''z'', rec_score = 99, reason = ''Unknown'' \<rparr>,
      \<lparr> rec_id = ''c'', rec_score = 70, reason = ''Senior role'' \<rparr>]"

definition rankBackend :: Backend where
  "rankBackend = demoBackend \<lparr> gen_recommend := (\<lambda>q c. Inr rankHits) \<rparr>"

text \<open>A record without a background.\<close>

definition noBackgroundProfile :: Profile where
  "noBackgroundProfile =
     (initialProfile ''e'')
       \<lparr> name := Some ''Eve Lund'', title := Some ''Analyst'', company := Some ''Acme'',
         skills := Some [''SQL''] \<rparr>"

section \<open>Maps that may raise\<close>

lemma map_result_Inr:
  "map_result f xs = Inr ys \<Longrightarrow> length ys = length xs \<and> (\<forall>i<length xs. f (xs ! i) = Inr (ys ! i))"
proof (induction xs arbitrary: ys)
  case Nil
  then show ?case by simp
next
  case (Cons x xs)
  from Cons.prems obtain y ys' where y: "f x = Inr y" and ys': "map_result f xs = Inr ys'"
    and ys: "ys = y # ys'"
    by (auto split: sum.splits)
  from Cons.IH [OF ys'] have ih: "length ys' = length xs" "\<forall>i<length xs. f (xs ! i) = Inr (ys' ! i)"
    by simp_all
  show ?case
  proof (intro conjI allI impI)
    show "length ys = length (x # xs)" using ih(1) ys by simp
  next
    fix i assume "i < length (x # xs)"
    then show "f ((x # xs) ! i) = Inr (ys ! i)"
      using y ih(2) ys by (cases i) simp_all
  qed
qed

lemma map_result_all_Inr:
  "(\<And>x. x \<in> set xs \<Longrightarrow> f x = Inr (g x)) \<Longrightarrow> map_result f xs = Inr (map g xs)"
  by (induction xs) simp_all

section \<open>The enrichment loop as a map\<close>

lemma enrichLoop_eq:
  "enrichLoop B i ps enriched =
     (case map_result (\<lambda>(k, p). enrichOne B k p) (enumerate i ps) of
        Inl e \<Rightarrow> Inl e
      | Inr rs \<Rightarrow> Inr (enriched @ rs))"
  by (induction ps arbitrary: i enriched) (simp_all split: sum.splits)

lemma startEnrichment_Inr:
  assumes "startEnrichment B ps = Inr out"
  shows "length out = length ps \<and> (\<forall>j<length ps. enrichOne B j (ps ! j) = Inr (out ! j))"
proof -
  from assms have m: "map_result (\<lambda>(k, p). enrichOne B k p) (enumerate 0 ps) = Inr out"
    by (simp add: startEnrichment_def enrichLoop_eq split: sum.splits)
  from map_result_Inr [OF m] show ?thesis
    by (simp add: nth_enumerate_eq)
qed

lemma startEnrichment_returns:
  assumes "\<forall>j<length ps. discoverRole B j (ps ! j) \<noteq> Inl TypeError"
  shows "\<exists>out. startEnrichment B ps = Inr out"
proof -
  have d: "\<exists>tc. discoverRole B j (ps ! j) = Inr tc" if "j < length ps" for j
    using assms that by (cases "discoverRole B j (ps ! j)") (auto simp add: discoverRole_def Let_def split: if_splits option.splits)
  let ?g = "\<lambda>(k, p). case discoverRole B k p of Inr (t, c) \<Rightarrow> enrichRecord B k p t c | Inl e \<Rightarrow> p"
  have "map_result (\<lambda>(k, p). enrichOne B k p) (enumerate 0 ps) = Inr (map ?g (enumerate 0 ps))"
  proof (rule map_result_all_Inr)
    fix x assume "x \<in> set (enumerate 0 ps)"
    then obtain j where j: "j < length ps" and x: "x = (j, ps ! j)"
      by (auto simp add: in_set_conv_nth nth_enumerate_eq)
    from d [OF j] obtain t c where "discoverRole B j (ps ! j) = Inr (t, c)" by auto
    then show "(case x of (k, p) \<Rightarrow> enrichOne B k p) = Inr (?g x)"
      by (simp add: x enrichOne_def)
  qed
  then show ?thesis by (simp add: startEnrichment_def enrichLoop_eq)
qed

lemma enrichRecord_status:
  "enrichment_status (enrichRecord B i p t c) \<in> {Success, Fallback, Error}"
  by (simp add: enrichRecord_def Let_def split: sum.splits)

lemma enrichRecord_kept:
  "profile_id (enrichRecord B i p t c) = profile_id p \<and> name (enrichRecord B i p t c) = name p
   \<and> linkedin_url (enrichRecord B i p t c) = linkedin_url p \<and> email (enrichRecord B i p t c) = email p
   \<and> selected (enrichRecord B i p t c) = selected p"
  by (simp add: enrichRecord_def Let_def split: sum.splits)

lemma discoverRole_cong:
  assumes "gen_identify B' i = gen_identify B i"
  shows "discoverRole B' i p = discoverRole B i p"
  by (simp add: discoverRole_def identifyRole_def assms Let_def)

lemma enrichOne_cong:
  assumes "gen_identify B' i = gen_identify B i" "gen_extract B' i = gen_extract B i" "gen_infer B' i = gen_infer B i"
  shows "enrichOne B' i p = enrichOne B i p"
  unfolding enrichOne_def enrichRecord_def enrichWithGemini_def inferFromTitle_def
    discoverRole_cong [OF assms(1)] assms(2,3) ..

text \<open>When the loop runs to its end, the list handed on has one record per input record,
  in the same order, each with a final status, and the record at a position is a function
  of the input record and of the provider's answers for that position.\<close>

lemma startEnrichment_returned:
  assumes "startEnrichment B ps = Inr out"
  shows "length out = length ps
   \<and> (\<forall>j<length ps.
         profile_id (out ! j) = profile_id (ps ! j)
       \<and> name (out ! j) = name (ps ! j)
       \<and> linkedin_url (out ! j) = linkedin_url (ps ! j)
       \<and> email (out ! j) = email (ps ! j)
       \<and> selected (out ! j) = selected (ps ! j)
       \<and> enrichment_status (out ! j) \<in> {Success, Fallback, Error})"
proof (intro conjI allI impI)
  from startEnrichment_Inr [OF assms]
  have len: "length out = length ps"
    and each: "\<forall>j<length ps. enrichOne B j (ps ! j) = Inr (out ! j)" by simp_all
  show "length out = length ps" by (rule len)
  fix j assume "j < length ps"
  with each have "enrichOne B j (ps ! j) = Inr (out ! j)" by simp
  then obtain t c where o: "out ! j = enrichRecord B j (ps ! j) t c"
    by (auto simp add: enrichOne_def split: sum.splits dest: sym)
  show "profile_id (out ! j) = profile_id (ps ! j)" "name (out ! j) = name (ps ! j)"
    "linkedin_url (out ! j) = linkedin_url (ps ! j)" "email (out ! j) = email (ps ! j)"
    "selected (out ! j) = selected (ps ! j)"
    "enrichment_status (out ! j) \<in> {Success, Fallback, Error}"
    using enrichRecord_status [of B j "ps ! j" t c] enrichRecord_kept [of B j "ps ! j" t c]
    by (simp_all add: o)
qed

lemma demo_discoverRole:
  "gen_identify B i = gen_identify demoBackend i
     \<Longrightarrow> discoverRole B i demoProfile = Inr (Some ''CTO'', Some ''Acme'')"
  by (simp add: discoverRole_def identifyRole_def demoBackend_def demoProfile_def
      initialProfile_def truthy_def or_opt_def)

section \<open>Enrichment orchestrator: properties\<close>

text \<open>
  C1, as the code has it. In the identification step, when the title or the company of a
  record is missing and the identify request is answered, the title and the company each
  take the answer's value when that value is not empty, and keep their previous value
  when it is empty; a value the record already had is therefore replaced by a non-empty
  answer. The step of the enrichment loop (\<open>discoverRole\<close>) computes only the title and
  the company and does not read the answer's region; the pass after the mapping
  (\<open>identifyMissing\<close>) applies the same rule to the region and changes no other field.
\<close>

theorem identification_prefers_response:
  assumes "\<not> truthy (title p) \<or> \<not> truthy (company p)"
    and "gen_identify B i (name p) (linkedin_url p) = Inr (Some r)"
  shows "discoverRole B i p =
           Inr (if role_title r \<noteq> [] then Some (role_title r) else title p,
                if role_company r \<noteq> [] then Some (role_company r) else company p)
       \<and> identifyMissing B (i, p) =
           p\<lparr> title := (if role_title r \<noteq> [] then Some (role_title r) else title p),
              company := (if role_company r \<noteq> [] then Some (role_company r) else company p),
              region := (if role_region r \<noteq> [] then Some (role_region r) else region p) \<rparr>"
  using assms by (auto simp add: discoverRole_def identifyMissing_def identifyRole_def or_opt_def Let_def)

theorem identification_prefers_response_witness:
  "discoverRole demoBackend 1 demoProfile = Inr (Some ''CTO'', Some ''Acme'')
   \<and> region (identifyMissing demoBackend (1, demoProfile)) = Some ''Oslo''
   \<and> company (identifyMissing demoBackend (1, demoProfile)) = Some ''Acme''"
proof -
  have m: "\<not> truthy (title demoProfile) \<or> \<not> truthy (company demoProfile)"
    by (simp add: demoProfile_def initialProfile_def truthy_def)
  have r: "gen_identify demoBackend 1 (name demoProfile) (linkedin_url demoProfile)
       = Inr (Some \<lparr> role_title = ''CTO'', role_company = ''Acme'', role_region = ''Oslo'' \<rparr>)"
    by (simp add: demoBackend_def)
  show ?thesis using identification_prefers_response [OF m r] by simp
qed

text \<open>
  C1, as stated, fails: the sample record has the title \<open>CEO\<close> and an empty company, the
  identify request is answered with the title \<open>CTO\<close>, and after the step the title is
  \<open>CTO\<close>, in the enrichment loop and in the pass after the mapping alike.
\<close>

theorem identification_overwrites_counterexample:
  "title demoProfile = Some ''CEO''
   \<and> \<not> truthy (company demoProfile)
   \<and> gen_identify demoBackend 1 (name demoProfile) (linkedin_url demoProfile)
       = Inr (Some \<lparr> role_title = ''CTO'', role_company = ''Acme'', role_region = ''Oslo'' \<rparr>)
   \<and> discoverRole demoBackend 1 demoProfile = Inr (Some ''CTO'', Some ''Acme'')
   \<and> (\<exists>out. startEnrichment demoBackend [demoProfile, demoProfile] = Inr out
          \<and> title (out ! 1) = Some ''CTO'')
   \<and> title (identifyMissing demoBackend (1, demoProfile)) = Some ''CTO''"
proof -
  have d: "discoverRole demoBackend i demoProfile = Inr (Some ''CTO'', Some ''Acme'')" for i
    by (rule demo_discoverRole) simp
  have t: "title (enrichRecord demoBackend (Suc 0) demoProfile (Some ''CTO'') (Some ''Acme'')) = Some ''CTO''"
    by (simp add: enrichRecord_def enrichWithGemini_def demoBackend_def demoResult_def)
  have s: "\<exists>out. startEnrichment demoBackend [demoProfile, demoProfile] = Inr out
          \<and> title (out ! 1) = Some ''CTO''"
    using t by (simp add: startEnrichment_def enrichOne_def d)
  have m: "title (identifyMissing demoBackend (1, demoProfile)) = Some ''CTO''"
    by (simp add: identifyMissing_def identifyRole_def demoBackend_def demoProfile_def
        initialProfile_def truthy_def or_opt_def)
  have a: "title demoProfile = Some ''CEO''" "\<not> truthy (company demoProfile)"
    "gen_identify demoBackend 1 (name demoProfile) (linkedin_url demoProfile)
       = Inr (Some \<lparr> role_title = ''CTO'', role_company = ''Acme'', role_region = ''Oslo'' \<rparr>)"
    by (simp_all add: demoProfile_def initialProfile_def truthy_def demoBackend_def)
  from a d s m show ?thesis by blast
qed

text \<open>
  C2 asks that the enrichment of a batch returns one record per input record whatever
  happens while a record is processed. The code falls short of it in the identification
  step, which stands outside the \<open>try\<close> of the loop body: when the reply to the identify
  request for the first of two records parses to \<open>null\<close>, reading its title raises, the
  loop ends, and no list is handed on, although the second record, taken alone, is
  processed as with the provider that answers every request. The pass after the mapping
  catches the same error and leaves the record as it was.
\<close>

theorem startEnrichment_aborts_on_null_reply:
  "gen_identify nullBackend 0 (name demoProfile) (linkedin_url demoProfile) = Inr None
   \<and> startEnrichment nullBackend [demoProfile, demoProfile] = Inl TypeError
   \<and> enrichOne nullBackend 1 demoProfile = enrichOne demoBackend2 1 demoProfile
   \<and> identifyMissing nullBackend (0, demoProfile) = demoProfile"
proof -
  have n: "gen_identify nullBackend 0 (name demoProfile) (linkedin_url demoProfile) = Inr None"
    by (simp add: nullBackend_def)
  have n0: "gen_identify nullBackend 0 = (\<lambda>n u. Inr None)"
    by (simp add: nullBackend_def)
  have d: "discoverRole nullBackend 0 demoProfile = Inl TypeError"
    by (simp add: discoverRole_def identifyRole_def n0 demoProfile_def initialProfile_def truthy_def)
  have s: "startEnrichment nullBackend [demoProfile, demoProfile] = Inl TypeError"
    by (simp add: startEnrichment_def enrichOne_def d)
  have e: "enrichOne nullBackend 1 demoProfile = enrichOne demoBackend2 1 demoProfile"
    by (rule enrichOne_cong) (simp_all add: nullBackend_def)
  have m: "identifyMissing nullBackend (0, demoProfile) = demoProfile"
    by (simp add: identifyMissing_def identifyRole_def n0 truthy_def)
  from n s e m show ?thesis by blast
qed

theorem startEnrichment_aborts_on_null_reply_witness:
  "(\<exists>out. startEnrichment demoBackend2 [demoProfile, demoProfile] = Inr out
         \<and> map enrichment_status out = [Fallback, Success])
   \<and> startEnrichment nullBackend [demoProfile, demoProfile]
       \<noteq> startEnrichment demoBackend2 [demoProfile, demoProfile]"
proof -
  have d: "discoverRole demoBackend2 i demoProfile = Inr (Some ''CTO'', Some ''Acme'')" for i
    by (rule demo_discoverRole) (simp add: demoBackend2_def)
  have x: "gen_extract demoBackend2 = (\<lambda>i n t c u. Inr (demoResult (i = 1), None))"
    by (simp add: demoBackend2_def)
  have s0: "enrichment_status (enrichRecord demoBackend2 0 demoProfile (Some ''CTO'') (Some ''Acme'')) = Fallback"
    by (simp add: enrichRecord_def enrichWithGemini_def x demoResult_def Let_def)
  have s1: "enrichment_status (enrichRecord demoBackend2 (Suc 0) demoProfile (Some ''CTO'') (Some ''Acme'')) = Success"
    by (simp add: enrichRecord_def enrichWithGemini_def x demoResult_def Let_def)
  have a: "\<exists>out. startEnrichment demoBackend2 [demoProfile, demoProfile] = Inr out
         \<and> map enrichment_status out = [Fallback, Success]"
    using s0 s1 by (simp add: startEnrichment_def enrichOne_def d)
  then have "startEnrichment nullBackend [demoProfile, demoProfile]
       \<noteq> startEnrichment demoBackend2 [demoProfile, demoProfile]"
    using startEnrichment_aborts_on_null_reply by auto
  with a show ?thesis by (rule conjI)
qed

text \<open>
  C4. When the extraction request for a record fails, the record pushed for it is the
  input record with the status error and the source none: every other field is as it
  was, and neither enrichment data nor the discovered role is applied. It is the record
  at that position of the list the loop hands on.
\<close>

theorem extract_failure_keeps_fields:
  assumes "j < length ps"
    and "discoverRole B j (ps ! j) = Inr (t, c)"
    and "gen_extract B j (name (ps ! j)) t c (linkedin_url (ps ! j)) = Inl e"
  shows "enrichOne B j (ps ! j)
           = Inr ((ps ! j)\<lparr> enrichment_status := Error, enrichment_source := SourceNone \<rparr>)
       \<and> (\<forall>out. startEnrichment B ps = Inr out \<longrightarrow>
             out ! j = (ps ! j)\<lparr> enrichment_status := Error, enrichment_source := SourceNone \<rparr>)"
proof -
  have o: "enrichOne B j (ps ! j)
           = Inr ((ps ! j)\<lparr> enrichment_status := Error, enrichment_source := SourceNone \<rparr>)"
    using assms(2,3) by (simp add: enrichOne_def enrichRecord_def enrichWithGemini_def)
  show ?thesis
  proof (intro conjI allI impI)
    show "enrichOne B j (ps ! j)
           = Inr ((ps ! j)\<lparr> enrichment_status := Error, enrichment_source := SourceNone \<rparr>)"
      by (rule o)
  next
    fix out assume "startEnrichment B ps = Inr out"
    from startEnrichment_Inr [OF this] assms(1) have "enrichOne B j (ps ! j) = Inr (out ! j)"
      by simp
    with o show "out ! j = (ps ! j)\<lparr> enrichment_status := Error, enrichment_source := SourceNone \<rparr>"
      by simp
  qed
qed

theorem extract_failure_keeps_fields_witness:
  "startEnrichment demoBackend [demoProfile]
     = Inr [demoProfile\<lparr> enrichment_status := Error, enrichment_source := SourceNone \<rparr>]
   \<and> discoverRole demoBackend 0 demoProfile = Inr (Some ''CTO'', Some ''Acme'')
   \<and> title (demoProfile\<lparr> enrichment_status := Error, enrichment_source := SourceNone \<rparr>) = Some ''CEO''"
proof -
  have j: "0 < length [demoProfile]" by simp
  have d: "discoverRole demoBackend 0 ([demoProfile] ! 0) = Inr (Some ''CTO'', Some ''Acme'')"
    using demo_discoverRole [of demoBackend 0] by simp
  have x: "gen_extract demoBackend 0 (name ([demoProfile] ! 0)) (Some ''CTO'') (Some ''Acme'')
             (linkedin_url ([demoProfile] ! 0)) = Inl ProviderError"
    by (simp add: demoBackend_def)
  from extract_failure_keeps_fields [OF j d x]
  have "enrichOne demoBackend 0 demoProfile
     = Inr (demoProfile\<lparr> enrichment_status := Error, enrichment_source := SourceNone \<rparr>)"
    by simp
  then have "startEnrichment demoBackend [demoProfile]
     = Inr [demoProfile\<lparr> enrichment_status := Error, enrichment_source := SourceNone \<rparr>]"
    by (simp add: startEnrichment_def)
  then show ?thesis using d by (simp add: demoProfile_def initialProfile_def)
qed



section \<open>Cell cleaning: scenarios\<close>

lemma clean_scenario: "cleanLumaGarbage (Some ''Bob [VIP] has registered for Summit'') = ''Bob''"
  by code_simp

lemma clean_placeholder: "cleanLumaGarbage (Some '' N/A '') = []"
  by code_simp

section \<open>Record finalizer: the name\<close>

lemma parse_companyOnly:
  "parseRawCSV companyOnlyCSV = \<lparr> headers = [''Company''], rows = [[''Acme'']] \<rparr>"
  by (simp add: companyOnlyCSV_def parseRawCSV_def dquote_def LF_def CR_def trim_def is_space_def)

lemma lower_Company: "toLowerCase ''Company'' = ''company''"
  by code_simp

lemma detect_companyOnly:
  "detectMappings [''Company''] [[''Acme'']]
     = [\<lparr> header = ''Company'', mappedTo = FCompany, preview = [''Acme''], autoDetected = True \<rparr>]"
  by (simp add: detectMappings_def detectMapping_def lower_Company Let_def elem_at_def or_str_def)

text \<open>
  C3 asks that every record of \<open>finalizeProfiles\<close> has a non-empty name, for any mappings
  and rows. The code falls short of it: the name is assigned only inside the loop over
  the mappings, so with no column mapped to the name the record has no name at all. For
  the file with the single column \<open>Company\<close>, whose mapping \<open>detectMappings\<close> infers as
  company, the one record returned has an absent name.
\<close>

theorem finalizeProfiles_name_absent:
  "map name (finalizeProfiles now
      (detectMappings (headers (parseRawCSV companyOnlyCSV)) (rows (parseRawCSV companyOnlyCSV)))
      (rows (parseRawCSV companyOnlyCSV))) = [None]"
  by (simp add: parse_companyOnly detect_companyOnly finalizeProfiles_def finalizeRow_def
      applyMapping_def assignField_def initialProfile_def Let_def)

theorem finalizeProfiles_name_absent_witness:
  "length (finalizeProfiles (\<lambda>i. 5)
      (detectMappings (headers (parseRawCSV companyOnlyCSV)) (rows (parseRawCSV companyOnlyCSV)))
      (rows (parseRawCSV companyOnlyCSV))) = 1
   \<and> mappedTo (hd (detectMappings (headers (parseRawCSV companyOnlyCSV)) (rows (parseRawCSV companyOnlyCSV)))) = FCompany"
proof -
  have "length (map name (finalizeProfiles (\<lambda>i. 5)
      (detectMappings (headers (parseRawCSV companyOnlyCSV)) (rows (parseRawCSV companyOnlyCSV)))
      (rows (parseRawCSV companyOnlyCSV)))) = 1"
    by (simp only: finalizeProfiles_name_absent) simp
  then show ?thesis by (simp add: parse_companyOnly detect_companyOnly)
qed

text \<open>With a column mapped to the name, every record has a name that is not empty: the
  cleaned cell, or the placeholder \<open>Unknown Attendee\<close> when the cleaned cell is empty.\<close>

lemma applyMapping_keeps_name_ok:
  "name_ok p \<Longrightarrow> name_ok (applyMapping row (k, m) p)"
  by (cases "mappedTo m") (simp_all add: applyMapping_def assignField_def name_ok_def or_str_def Let_def)

lemma applyMapping_sets_name:
  "mappedTo m = FName \<Longrightarrow> name_ok (applyMapping row (k, m) p)"
  by (simp add: applyMapping_def name_ok_def or_str_def Let_def)

lemma fold_applyMapping_name_ok:
  "name_ok p \<or> (\<exists>km \<in> set kms. mappedTo (snd km) = FName)
     \<Longrightarrow> name_ok (fold (applyMapping row) kms p)"
proof (induction kms arbitrary: p)
  case Nil
  then show ?case by simp
next
  case (Cons km kms)
  obtain k m where km: "km = (k, m)" by (cases km)
  show ?case
  proof (cases "name_ok p \<or> mappedTo m = FName")
    case True
    then have "name_ok (applyMapping row (k, m) p)"
      using applyMapping_keeps_name_ok applyMapping_sets_name by blast
    then show ?thesis using Cons.IH km by simp
  next
    case False
    with Cons.prems km have "\<exists>km \<in> set kms. mappedTo (snd km) = FName" by auto
    then show ?thesis using Cons.IH km by simp
  qed
qed

lemma finalizeProfiles_name_nonempty_when_mapped:
  assumes "\<exists>m \<in> set mappings. mappedTo m = FName"
    and "p \<in> set (finalizeProfiles now mappings rs)"
  shows "\<exists>n. name p = Some n \<and> n \<noteq> []"
proof -
  from assms(1) have "\<exists>km \<in> set (enumerate 0 mappings). mappedTo (snd km) = FName"
    by (metis in_set_conv_nth length_enumerate nth_enumerate_eq snd_conv)
  then have "\<And>x. name_ok (finalizeRow now mappings x)"
    by (auto simp add: finalizeRow_def split: prod.splits intro!: fold_applyMapping_name_ok)
  with assms(2) have "name_ok p"
    by (auto simp add: finalizeProfiles_def)
  then show ?thesis by (simp add: name_ok_def split: option.splits)
qed

section \<open>Tabular restore and export: properties\<close>

lemma restoreRow_Inr:
  assumes "restoreRow now h (i, row) = Inr p"
  shows "enrichment_status p = Success \<and> enrichment_source p = GeminiWeb
     \<and> profile_id p = ''restored-'' @ show_nat i @ ''-'' @ show_nat (now i)"
  using assms
  by (auto simp add: restoreRow_def and_then_def Let_def split: sum.splits)

lemma export_demo:
  "exportToCSV [demoProfile\<lparr>enrichment_status := Error\<rparr>] = Inr exportedText"
  by (simp add: exportToCSV_def exportRow_def exportFields_def demoProfile_def initialProfile_def
      quoted_def double_quotes_def or_str_def csvHeaders_def exportedText_def dquote_def
      eval_nat_numeral)

lemma parse_exported:
  "parseRawCSV exportedText =
     \<lparr> headers = csvHeaders, rows = [[''Ann'', ''CEO'', [], [], [], [], [], [], [], []]] \<rparr>"
  by (simp add: exportedText_def parseRawCSV_def csvHeaders_def dquote_def LF_def CR_def
      trim_def is_space_def eval_nat_numeral)

lemma lowered_headers:
  "map (\<lambda>header. trim (remove_quotes (toLowerCase header))) csvHeaders
     = [''name'', ''title'', ''company'', ''region'', ''linkedin'', ''years of experience'',
        ''background'', ''responsibilities'', ''achievements'', ''skills'']"
  by code_simp

lemma show_nat_0: "show_nat 0 = ''0''" by code_simp
lemma show_nat_9: "show_nat 9 = ''9''" by code_simp

lemma restore_exported:
  "parseEnrichedCSV (\<lambda>i. 9) csvHeaders [[''Ann'', ''CEO'', [], [], [], [], [], [], [], []]]
     = Inr [\<lparr> profile_id = ''restored-0-9'',
              name = Some ''Ann'', title = Some ''CEO'', company = Some [],
              region = Some [], linkedin_url = Some [], email = None,
              selected = Some True, years_of_experience = Some [],
              background = Some [], what_they_do = Some [],
              achievements = Some [], skills = Some [], grounding_urls = None,
              match_reason = None, score = None,
              enrichment_status = Success, enrichment_source = GeminiWeb \<rparr>]"
  by (simp add: parseEnrichedCSV_def lowered_headers restoreRow_def and_then_def restoredCell_def
      restoredSkills_def elem_at_def strip_outer_quotes_def truthy_def show_nat_0 show_nat_9 dquote_def)

text \<open>
  C10. Every profile that \<open>parseEnrichedCSV\<close> returns, for any headers and rows, has the
  status success, the source of the primary provider, and the identifier built from its
  row number and the clock: the status, source and identifier a record had when it was
  exported do not come back from the tabular form.
\<close>

theorem parseEnrichedCSV_resets_metadata:
  assumes "parseEnrichedCSV now hs rs = Inr ps"
  shows "length ps = length rs
     \<and> (\<forall>i<length ps.
          enrichment_status (ps ! i) = Success
        \<and> enrichment_source (ps ! i) = GeminiWeb
        \<and> profile_id (ps ! i) = ''restored-'' @ show_nat i @ ''-'' @ show_nat (now i))"
proof -
  define h where "h = map (\<lambda>header. trim (remove_quotes (toLowerCase header))) hs"
  from assms have m: "map_result (restoreRow now h) (enumerate 0 rs) = Inr ps"
    by (simp add: parseEnrichedCSV_def h_def)
  from map_result_Inr [OF m] have len: "length ps = length rs"
    and each: "\<forall>i<length rs. restoreRow now h (enumerate 0 rs ! i) = Inr (ps ! i)"
    by simp_all
  show ?thesis
  proof (intro conjI allI impI)
    show "length ps = length rs" by (rule len)
  next
    fix i assume i: "i < length ps"
    with each len have "restoreRow now h (i, rs ! i) = Inr (ps ! i)"
      by (simp add: nth_enumerate_eq)
    from restoreRow_Inr [OF this]
    show "enrichment_status (ps ! i) = Success" "enrichment_source (ps ! i) = GeminiWeb"
      "profile_id (ps ! i) = ''restored-'' @ show_nat i @ ''-'' @ show_nat (now i)"
      by simp_all
  qed
qed

theorem parseEnrichedCSV_resets_metadata_witness:
  "profile_id demoProfile = ''profile-0-5''
   \<and> exportToCSV [demoProfile\<lparr>enrichment_status := Error\<rparr>] = Inr exportedText
   \<and> (\<exists>ps. parseEnrichedCSV (\<lambda>i. 9) (headers (parseRawCSV exportedText))
               (rows (parseRawCSV exportedText)) = Inr ps
          \<and> length ps = 1
          \<and> enrichment_status (ps ! 0) = Success
          \<and> enrichment_source (ps ! 0) = GeminiWeb
          \<and> profile_id (ps ! 0) = ''restored-0-9'')"
proof -
  have a: "profile_id demoProfile = ''profile-0-5''"
    by (simp add: demoProfile_def initialProfile_def)
  obtain ps where ps: "parseEnrichedCSV (\<lambda>i. 9) (headers (parseRawCSV exportedText))
               (rows (parseRawCSV exportedText)) = Inr ps"
    by (simp add: parse_exported restore_exported)
  from parseEnrichedCSV_resets_metadata [OF ps]
  have "length ps = 1 \<and> enrichment_status (ps ! 0) = Success
          \<and> enrichment_source (ps ! 0) = GeminiWeb
          \<and> profile_id (ps ! 0) = ''restored-0-9''"
    by (simp add: parse_exported show_nat_0 show_nat_9)
  with ps a export_demo show ?thesis by blast
qed

lemma undouble_step:
  "undouble ((if c = dquote then [dquote, dquote] else [c]) @ cs) = map_option ((#) c) (undouble cs)"
  by (cases cs) (simp_all add: dquote_def)

lemma undouble_double_quotes: "undouble (double_quotes v) = Some v"
proof (induction v)
  case Nil
  then show ?case by (simp add: double_quotes_def)
next
  case (Cons c v)
  have "double_quotes (c # v) = (if c = dquote then [dquote, dquote] else [c]) @ double_quotes v"
    by (simp add: double_quotes_def)
  then show ?case using Cons.IH by (simp only: undouble_step) simp
qed

lemma is_csv_quoted_quoted: "is_csv_quoted v (quoted v)"
  by (simp add: is_csv_quoted_def quoted_def undouble_double_quotes)

lemma exportFields_named:
  "name p \<noteq> None \<Longrightarrow> exportFields p = Inr (map quoted (exportValues p))"
  by (auto simp add: exportFields_def exportValues_def or_str_def split: option.splits)

lemma exportRow_named:
  "name p \<noteq> None \<Longrightarrow> exportRow p = Inr (join '','' (map quoted (exportValues p)))"
  by (simp add: exportRow_def exportFields_named)

lemma header_line:
  "join '','' csvHeaders = ''Name,Title,Company,Region,LinkedIn,Years of Experience,Background,Responsibilities,Achievements,Skills''"
  by (simp add: csvHeaders_def)

text \<open>
  C9, as the code has it. For every list of profiles that each have a name, the
  export is the header row \<open>Name\<close>, \<open>Title\<close>, \<open>Company\<close>, \<open>Region\<close>, \<open>LinkedIn\<close>,
  \<open>Years of Experience\<close>, \<open>Background\<close>, \<open>Responsibilities\<close>, \<open>Achievements\<close>, \<open>Skills\<close>
  followed by one row per profile, the rows separated by line feeds; each data row is
  ten fields separated by commas, and each field is the value of its column enclosed in
  double quotes, with each double quote of the value doubled.
\<close>

theorem exportToCSV_format:
  assumes "\<forall>p\<in>set ps. name p \<noteq> None"
  shows "\<exists>rs. exportToCSV ps = Inr (join [LF]
            (''Name,Title,Company,Region,LinkedIn,Years of Experience,Background,Responsibilities,Achievements,Skills'' # rs))
         \<and> length rs = length ps
         \<and> (\<forall>k<length ps. \<exists>fs. rs ! k = join '','' fs \<and> length fs = 10
               \<and> (\<forall>j<10. is_csv_quoted (exportValues (ps ! k) ! j) (fs ! j)))"
proof -
  let ?row = "\<lambda>p. join '','' (map quoted (exportValues p))"
  have "map_result exportRow ps = Inr (map ?row ps)"
    using assms by (intro map_result_all_Inr exportRow_named) simp
  then have e: "exportToCSV ps = Inr (join [LF] (join '','' csvHeaders # map ?row ps))"
    by (simp add: exportToCSV_def)
  have f: "\<exists>fs. map ?row ps ! k = join '','' fs \<and> length fs = 10
               \<and> (\<forall>j<10. is_csv_quoted (exportValues (ps ! k) ! j) (fs ! j))" if "k < length ps" for k
  proof (intro exI conjI allI impI)
    show "map ?row ps ! k = join '','' (map quoted (exportValues (ps ! k)))"
      using that by simp
    show "length (map quoted (exportValues (ps ! k))) = 10"
      by (simp add: exportValues_def)
    fix j :: nat assume "j < 10"
    then have "j < length (exportValues (ps ! k))" by (simp add: exportValues_def)
    then show "is_csv_quoted (exportValues (ps ! k) ! j) (map quoted (exportValues (ps ! k)) ! j)"
      by (simp add: is_csv_quoted_quoted)
  qed
  show ?thesis
    by (rule exI [of _ "map ?row ps"]) (use e f in \<open>simp add: header_line\<close>)
qed

theorem exportToCSV_format_witness:
  "(\<exists>rs. exportToCSV [quotedNameProfile] = Inr (join [LF]
            (''Name,Title,Company,Region,LinkedIn,Years of Experience,Background,Responsibilities,Achievements,Skills'' # rs))
         \<and> length rs = 1)
   \<and> exportToCSV [quotedNameProfile] = Inr
       (''Name,Title,Company,Region,LinkedIn,Years of Experience,Background,Responsibilities,Achievements,Skills''
         @ [LF] @ [dquote] @ ''Ann '' @ [dquote, dquote] @ ''Al'' @ [dquote, dquote] @ [dquote]
         @ '','' @ [dquote] @ ''CEO'' @ [dquote]
         @ concat (replicate 8 ('','' @ [dquote, dquote])))"
proof -
  have n: "\<forall>p\<in>set [quotedNameProfile]. name p \<noteq> None"
    by (simp add: quotedNameProfile_def)
  from exportToCSV_format [OF n]
  have a: "\<exists>rs. exportToCSV [quotedNameProfile] = Inr (join [LF]
            (''Name,Title,Company,Region,LinkedIn,Years of Experience,Background,Responsibilities,Achievements,Skills'' # rs))
         \<and> length rs = 1"
    by auto
  have b: "exportToCSV [quotedNameProfile] = Inr
       (''Name,Title,Company,Region,LinkedIn,Years of Experience,Background,Responsibilities,Achievements,Skills''
         @ [LF] @ [dquote] @ ''Ann '' @ [dquote, dquote] @ ''Al'' @ [dquote, dquote] @ [dquote]
         @ '','' @ [dquote] @ ''CEO'' @ [dquote]
         @ concat (replicate 8 ('','' @ [dquote, dquote])))"
    by (simp add: exportToCSV_def exportRow_def exportFields_def quotedNameProfile_def
        demoProfile_def initialProfile_def quoted_def double_quotes_def or_str_def csvHeaders_def
        dquote_def eval_nat_numeral)
  from a b show ?thesis by (rule conjI)
qed

text \<open>
  C9, as stated, fails: the export reads the name without a guard, so for a list with a
  record that has no name it raises and produces no text. Such a record is what the
  finalizer returns for the file with the single column \<open>Company\<close>.
\<close>

theorem exportToCSV_nameless_counterexample:
  "name (initialProfile ''profile-0-5'') = None
   \<and> exportToCSV [initialProfile ''profile-0-5''] = Inl TypeError
   \<and> exportToCSV (finalizeProfiles (\<lambda>i. 5)
        (detectMappings (headers (parseRawCSV companyOnlyCSV)) (rows (parseRawCSV companyOnlyCSV)))
        (rows (parseRawCSV companyOnlyCSV))) = Inl TypeError"
  by (simp add: parse_companyOnly detect_companyOnly finalizeProfiles_def finalizeRow_def
      applyMapping_def assignField_def initialProfile_def Let_def
      exportToCSV_def exportRow_def exportFields_def)

section \<open>Search and ranking: properties\<close>

lemma lastHit_snoc:
  "lastHit (recs @ [r]) pid = (if rec_id r = pid then Some r else lastHit recs pid)"
  by (simp add: lastHit_def)

lemma recMapOf_lastHit: "recMapOf recs pid = lastHit recs pid"
proof (induction recs rule: rev_induct)
  case Nil
  then show ?case by (simp add: recMapOf_def lastHit_def)
next
  case (snoc r recs)
  then show ?case by (auto simp add: recMapOf_def lastHit_snoc)
qed

lemma lastHit_None: "lastHit recs pid = None \<longleftrightarrow> pid \<notin> rec_id ` set recs"
  by (auto simp add: lastHit_def filter_empty_conv)

lemma lastHit_Some:
  assumes "lastHit recs pid = Some r"
  shows "r \<in> set recs \<and> rec_id r = pid"
proof -
  from assms have ne: "filter (\<lambda>r. rec_id r = pid) recs \<noteq> []"
    and r: "r = last (filter (\<lambda>r. rec_id r = pid) recs)"
    by (auto simp add: lastHit_def split: if_splits)
  from ne have "last (filter (\<lambda>r. rec_id r = pid) recs) \<in> set (filter (\<lambda>r. rec_id r = pid) recs)"
    by (rule last_in_set)
  with r show ?thesis by simp
qed

lemma set_insertBy: "set (insertBy cmp x ys) = insert x (set ys)"
  by (induction ys) auto

lemma length_insertBy: "length (insertBy cmp x ys) = Suc (length ys)"
  by (induction ys) auto

lemma sorted_insertBy:
  "sorted_wrt (\<lambda>a b. k b \<le> k a) ys
     \<Longrightarrow> sorted_wrt (\<lambda>a b. k b \<le> k a) (insertBy (\<lambda>a b. k b - k a) x ys)"
  for k :: "'a \<Rightarrow> real"
  by (induction ys) (auto simp add: set_insertBy)

lemma filter_insertBy:
  "filter (\<lambda>p. k p = s) (insertBy (\<lambda>a b. k b - k a) x ys) = filter (\<lambda>p. k p = s) (x # ys)"
  for k :: "'a \<Rightarrow> real"
  by (induction ys) auto

lemma set_sortBy: "set (sortBy cmp xs) = set xs"
  by (induction xs) (simp_all add: sortBy_def set_insertBy)

lemma length_sortBy: "length (sortBy cmp xs) = length xs"
  by (induction xs) (simp_all add: sortBy_def length_insertBy)

lemma sorted_sortBy:
  "sorted_wrt (\<lambda>a b. k b \<le> k a) (sortBy (\<lambda>a b. k b - k a) xs)"
  for k :: "'a \<Rightarrow> real"
  by (induction xs) (simp_all add: sortBy_def sorted_insertBy)

lemma filter_sortBy:
  "filter (\<lambda>p. k p = s) (sortBy (\<lambda>a b. k b - k a) xs) = filter (\<lambda>p. k p = s) xs"
  for k :: "'a \<Rightarrow> real"
proof (induction xs)
  case Nil
  then show ?case by (simp add: sortBy_def)
next
  case (Cons x xs)
  have "sortBy (\<lambda>a b. k b - k a) (x # xs) = insertBy (\<lambda>a b. k b - k a) x (sortBy (\<lambda>a b. k b - k a) xs)"
    by (simp add: sortBy_def)
  then show ?case using Cons.IH by (simp add: filter_insertBy)
qed

lemma str_includes_sublist: "str_includes h needle \<longleftrightarrow> sublist needle h"
  by (induction h) (auto simp add: sublist_Cons_right)

lemma handleAgentSearch_ranked:
  assumes "length (trim (toLowerCase searchQuery)) > 10"
    and "recommendProfiles B (trim (toLowerCase searchQuery)) (regionFiltered profiles selectedRegion) = recs"
    and "recs \<noteq> []"
  shows "handleAgentSearch B profiles searchQuery selectedRegion
     = sortBy (\<lambda>a b. or_zero (score b) - or_zero (score a))
         (map (withHit recs)
           (filter (\<lambda>p. profile_id p \<in> rec_id ` set recs) (regionFiltered profiles selectedRegion)))"
proof -
  have ne: "trim (toLowerCase searchQuery) \<noteq> []" using assms(1) by auto
  have fl: "(\<lambda>p. \<exists>y. recMapOf recs (profile_id p) = Some y) = (\<lambda>p. profile_id p \<in> rec_id ` set recs)"
  proof (rule ext)
    fix p
    have "(\<exists>y. lastHit recs (profile_id p) = Some y) \<longleftrightarrow> lastHit recs (profile_id p) \<noteq> None"
      by simp
    then show "(\<exists>y. recMapOf recs (profile_id p) = Some y) = (profile_id p \<in> rec_id ` set recs)"
      by (simp only: recMapOf_lastHit lastHit_None) simp
  qed
  have wh: "(\<lambda>p. p\<lparr> score := map_option rec_score (recMapOf recs (profile_id p)),
                     match_reason := map_option reason (recMapOf recs (profile_id p)) \<rparr>) = withHit recs"
    by (simp add: withHit_def recMapOf_lastHit fun_eq_iff)
  have rf: "(if selectedRegion \<noteq> ''All Regions''
                      then filter (\<lambda>p. region p = Some selectedRegion) profiles
                      else profiles) = regionFiltered profiles selectedRegion"
    by (simp add: regionFiltered_def)
  show ?thesis
    unfolding handleAgentSearch_def rf Let_def
    using assms ne by (simp add: fl wh)
qed

lemma demo_query: "trim (toLowerCase ''Data Engineer '') = ''data engineer''"
  by code_simp

lemma rank_answer:
  "recommendProfiles rankBackend ''data engineer'' (regionFiltered searchProfiles ''All Regions'') = rankHits"
  by (simp add: recommendProfiles_def rankBackend_def)

text \<open>
  C6. In a search whose query (lower-cased and trimmed) has more than ten characters, when
  the ranking returned is not empty, the result holds exactly the candidates of the
  selected region whose identifier occurs in the ranking, each with the score and the
  reason of its hit attached (the last hit, should an identifier occur twice), in
  descending order of score, candidates with equal scores keeping the order they had
  among the candidates.
\<close>

theorem ranked_search_order:
  assumes "length (trim (toLowerCase searchQuery)) > 10"
    and "recommendProfiles B (trim (toLowerCase searchQuery)) (regionFiltered profiles selectedRegion) = recs"
    and "recs \<noteq> []"
  shows "let result = handleAgentSearch B profiles searchQuery selectedRegion;
             matched = map (withHit recs)
               (filter (\<lambda>p. profile_id p \<in> rec_id ` set recs) (regionFiltered profiles selectedRegion))
         in set result = set matched \<and> length result = length matched
            \<and> sorted_wrt (\<lambda>a b. or_zero (score a) \<ge> or_zero (score b)) result
            \<and> (\<forall>s. filter (\<lambda>p. or_zero (score p) = s) result = filter (\<lambda>p. or_zero (score p) = s) matched)
            \<and> (\<forall>p \<in> set matched. \<exists>r \<in> set recs. rec_id r = profile_id p
                  \<and> score p = Some (rec_score r) \<and> match_reason p = Some (reason r))"
proof -
  let ?matched = "map (withHit recs)
               (filter (\<lambda>p. profile_id p \<in> rec_id ` set recs) (regionFiltered profiles selectedRegion))"
  let ?k = "\<lambda>p. or_zero (score p)"
  have r: "handleAgentSearch B profiles searchQuery selectedRegion
      = sortBy (\<lambda>a b. ?k b - ?k a) ?matched"
    by (rule handleAgentSearch_ranked [OF assms])
  have hit: "\<exists>r \<in> set recs. rec_id r = profile_id p
                  \<and> score p = Some (rec_score r) \<and> match_reason p = Some (reason r)"
    if "p \<in> set ?matched" for p
  proof -
    from that obtain p0 where p: "p = withHit recs p0" and i: "profile_id p0 \<in> rec_id ` set recs"
      by auto
    from i obtain h where h: "lastHit recs (profile_id p0) = Some h"
      using lastHit_None [of recs "profile_id p0"] by (cases "lastHit recs (profile_id p0)") simp_all
    from lastHit_Some [OF h] have "h \<in> set recs" "rec_id h = profile_id p0" by simp_all
    then show ?thesis using p h by (auto simp add: withHit_def)
  qed
  show ?thesis
    unfolding Let_def r
    using hit
    by (simp add: set_sortBy length_sortBy sorted_sortBy [of ?k] filter_sortBy [of ?k] del: set_map)
qed

theorem ranked_search_order_witness:
  "sorted_wrt (\<lambda>a b. or_zero (score a) \<ge> or_zero (score b))
     (handleAgentSearch rankBackend searchProfiles ''Data Engineer '' ''All Regions'')
   \<and> map (\<lambda>p. (profile_id p, score p, match_reason p))
       (handleAgentSearch rankBackend searchProfiles ''Data Engineer '' ''All Regions'')
     = [(''a'', Some 90, Some ''Exact role''), (''b'', Some 70, Some ''Same role''),
        (''c'', Some 70, Some ''Senior role'')]"
proof -
  have l: "length (trim (toLowerCase ''Data Engineer '')) > 10"
    by (simp add: demo_query)
  have r: "recommendProfiles rankBackend (trim (toLowerCase ''Data Engineer ''))
      (regionFiltered searchProfiles ''All Regions'') = rankHits"
    by (simp add: demo_query rank_answer)
  have n: "rankHits \<noteq> []" by (simp add: rankHits_def)
  from ranked_search_order [OF l r n]
  have s: "sorted_wrt (\<lambda>a b. or_zero (score a) \<ge> or_zero (score b))
     (handleAgentSearch rankBackend searchProfiles ''Data Engineer '' ''All Regions'')"
    by (simp add: Let_def)
  have v: "map (\<lambda>p. (profile_id p, score p, match_reason p))
       (handleAgentSearch rankBackend searchProfiles ''Data Engineer '' ''All Regions'')
     = [(''a'', Some 90, Some ''Exact role''), (''b'', Some 70, Some ''Same role''),
        (''c'', Some 70, Some ''Senior role'')]"
    unfolding handleAgentSearch_ranked [OF l r n]
    by (simp add: regionFiltered_def searchProfiles_def
        searchProfile_def initialProfile_def rankHits_def withHit_def lastHit_def sortBy_def or_zero_def)
  from s v show ?thesis by (rule conjI)
qed

lemma haystack_complete:
  "complete p \<Longrightarrow> haystack p = fieldsHaystack '' '' p"
  by (auto simp add: complete_def haystack_def fieldsHaystack_def template_def field_text_def)

text \<open>
  C7, as the code has it. In a search whose query, lower-cased and trimmed, has more than
  ten characters, when the ranking returned is empty, the result is a filter of the
  candidates of the selected region, in their order; a record that has a name, a title,
  a company and a background is kept exactly when the lower-cased text of its name,
  title, company, background and skills, the five parts separated by single spaces and
  the skills joined by single spaces, contains the lower-cased and trimmed query as a
  contiguous part.
\<close>

theorem empty_rank_falls_back_to_substring:
  assumes "length (trim (toLowerCase searchQuery)) > 10"
    and "recommendProfiles B (trim (toLowerCase searchQuery)) (regionFiltered profiles selectedRegion) = []"
  shows "\<exists>keep. handleAgentSearch B profiles searchQuery selectedRegion
                  = filter keep (regionFiltered profiles selectedRegion)
           \<and> (\<forall>p. complete p \<longrightarrow>
                 keep p = (\<exists>pre suf. fieldsHaystack '' '' p = pre @ trim (toLowerCase searchQuery) @ suf))"
proof -
  let ?q = "trim (toLowerCase searchQuery)"
  let ?keep = "\<lambda>p. str_includes (haystack p) ?q"
  have ne: "?q \<noteq> []" using assms(1) by auto
  have rf: "(if selectedRegion \<noteq> ''All Regions''
                      then filter (\<lambda>p. region p = Some selectedRegion) profiles
                      else profiles) = regionFiltered profiles selectedRegion"
    by (simp add: regionFiltered_def)
  have r: "handleAgentSearch B profiles searchQuery selectedRegion
                  = filter ?keep (regionFiltered profiles selectedRegion)"
    unfolding handleAgentSearch_def rf Let_def
    using assms ne by simp
  have k: "?keep p = (\<exists>pre suf. fieldsHaystack '' '' p = pre @ ?q @ suf)" if "complete p" for p
    using that by (simp add: haystack_complete str_includes_sublist sublist_def)
  from r k show ?thesis by blast
qed

lemma demo_haystacks:
  "map haystack searchProfiles =
     [''bob roy data engineer ii acme built pipelines. sql spark'',
      ''dan poe designer acme built pipelines. sql spark'',
      ''cy moe senior data engineer acme built pipelines. sql spark'',
      ''ann lee data engineer acme built pipelines. sql spark'']"
  by code_simp

lemma demo_fieldsHaystacks:
  "map (fieldsHaystack '' '') searchProfiles =
     [''bob roy data engineer ii acme built pipelines. sql spark'',
      ''dan poe designer acme built pipelines. sql spark'',
      ''cy moe senior data engineer acme built pipelines. sql spark'',
      ''ann lee data engineer acme built pipelines. sql spark'']"
  by code_simp

lemma demo_concatenations:
  "map (fieldsHaystack []) searchProfiles =
     [''bob roydata engineer iiacmebuilt pipelines.sqlspark'',
      ''dan poedesigneracmebuilt pipelines.sqlspark'',
      ''cy moesenior data engineeracmebuilt pipelines.sqlspark'',
      ''ann leedata engineeracmebuilt pipelines.sqlspark'']"
  by code_simp

lemma searchProfiles_complete: "\<forall>p \<in> set searchProfiles. complete p"
  by (simp add: searchProfiles_def searchProfile_def initialProfile_def complete_def)

lemma searchProfiles_ids: "map profile_id searchProfiles = [''b'', ''d'', ''c'', ''a'']"
  by (simp add: searchProfiles_def searchProfile_def initialProfile_def)

lemma filter_by_texts:
  "map f ps = ts \<Longrightarrow> map g (filter (\<lambda>p. P (f p)) ps) = map snd (filter (\<lambda>(t, i). P t) (zip ts (map g ps)))"
  by (induction ps arbitrary: ts) auto

theorem empty_rank_falls_back_to_substring_witness:
  "map profile_id (handleAgentSearch demoBackend searchProfiles ''Data Engineer '' ''All Regions'')
     = [''b'', ''c'', ''a'']"
proof -
  have l: "length (trim (toLowerCase ''Data Engineer '')) > 10"
    by (simp add: demo_query)
  have r: "recommendProfiles demoBackend (trim (toLowerCase ''Data Engineer ''))
      (regionFiltered searchProfiles ''All Regions'') = []"
    by (simp add: recommendProfiles_def demoBackend_def)
  from empty_rank_falls_back_to_substring [OF l r] obtain keep where
    h: "handleAgentSearch demoBackend searchProfiles ''Data Engineer '' ''All Regions''
          = filter keep searchProfiles"
    and k: "\<forall>p. complete p \<longrightarrow>
                 keep p = (\<exists>pre suf. fieldsHaystack '' '' p = pre @ ''data engineer'' @ suf)"
    by (auto simp add: demo_query regionFiltered_def)
  have "filter keep searchProfiles
      = filter (\<lambda>p. str_includes (fieldsHaystack '' '' p) ''data engineer'') searchProfiles"
    using k searchProfiles_complete
    by (intro filter_cong) (auto simp add: str_includes_sublist sublist_def)
  moreover have "map profile_id (filter (\<lambda>p. str_includes (fieldsHaystack '' '' p) ''data engineer'') searchProfiles)
     = [''b'', ''c'', ''a'']"
    by (simp add: filter_by_texts [OF demo_fieldsHaystacks,
          where P = "\<lambda>t. str_includes t ''data engineer''" and g = profile_id] searchProfiles_ids)
  ultimately show ?thesis using h by simp
qed

lemma spaced_query: "toLowerCase ''  Data Engineer'' = ''  data engineer''"
  by code_simp

lemma spaced_query_trimmed: "trim (toLowerCase ''  Data Engineer'') = ''data engineer''"
  by code_simp

text \<open>
  C7, as stated, fails: the claim's filter takes the lower-cased query, the code trims it
  as well. For the query \<open>Data Engineer\<close> preceded by two spaces and an empty ranking, the
  code keeps three of the four sample records; the records whose lower-cased
  concatenation of name, title, company, background and skills contains the lower-cased
  query are none, whether the parts are concatenated directly or with single spaces.
\<close>

theorem substring_fallback_counterexample:
  "recommendProfiles demoBackend (trim (toLowerCase ''  Data Engineer''))
      (regionFiltered searchProfiles ''All Regions'') = []
   \<and> map profile_id (handleAgentSearch demoBackend searchProfiles ''  Data Engineer'' ''All Regions'')
       = [''b'', ''c'', ''a'']
   \<and> map profile_id (filter (\<lambda>p. str_includes (fieldsHaystack [] p) (toLowerCase ''  Data Engineer''))
         searchProfiles) = []
   \<and> map profile_id (filter (\<lambda>p. str_includes (fieldsHaystack '' '' p) (toLowerCase ''  Data Engineer''))
         searchProfiles) = []"
proof -
  have r: "recommendProfiles demoBackend (trim (toLowerCase ''  Data Engineer''))
      (regionFiltered searchProfiles ''All Regions'') = []"
    by (simp add: recommendProfiles_def demoBackend_def)
  have h: "handleAgentSearch demoBackend searchProfiles ''  Data Engineer'' ''All Regions''
      = filter (\<lambda>p. str_includes (haystack p) ''data engineer'') searchProfiles"
    using r by (simp add: handleAgentSearch_def spaced_query_trimmed regionFiltered_def Let_def)
  have c: "map profile_id (handleAgentSearch demoBackend searchProfiles ''  Data Engineer'' ''All Regions'')
       = [''b'', ''c'', ''a'']"
    unfolding h
    by (simp add: filter_by_texts [OF demo_haystacks,
          where P = "\<lambda>t. str_includes t ''data engineer''" and g = profile_id] searchProfiles_ids)
  have a: "map profile_id (filter (\<lambda>p. str_includes (fieldsHaystack [] p) (toLowerCase ''  Data Engineer''))
         searchProfiles) = []"
    unfolding spaced_query
    by (simp add: filter_by_texts [OF demo_concatenations,
          where P = "\<lambda>t. str_includes t ''  data engineer''" and g = profile_id] searchProfiles_ids)
  have b: "map profile_id (filter (\<lambda>p. str_includes (fieldsHaystack '' '' p) (toLowerCase ''  Data Engineer''))
         searchProfiles) = []"
    unfolding spaced_query
    by (simp add: filter_by_texts [OF demo_fieldsHaystacks,
          where P = "\<lambda>t. str_includes t ''  data engineer''" and g = profile_id] searchProfiles_ids)
  from r c a b show ?thesis by blast
qed

text \<open>The template of the haystack has no guard for an absent field, other than the
  skills: an absent background prints as \<open>undefined\<close>, and the record is kept for a query
  that contains that word.\<close>

lemma undefined_query: "trim (toLowerCase ''acme undefined'') = ''acme undefined''"
  by code_simp

lemma noBackground_haystack: "haystack noBackgroundProfile = ''eve lund analyst acme undefined sql''"
  by code_simp

lemma absent_field_prints_undefined:
  "background noBackgroundProfile = None
   \<and> handleAgentSearch demoBackend [noBackgroundProfile] ''acme undefined'' ''All Regions''
       = [noBackgroundProfile]"
proof -
  have r: "recommendProfiles demoBackend q c = []" for q c
    by (simp add: recommendProfiles_def demoBackend_def)
  have "handleAgentSearch demoBackend [noBackgroundProfile] ''acme undefined'' ''All Regions''
       = [noBackgroundProfile]"
    by (simp add: handleAgentSearch_def undefined_query r noBackground_haystack Let_def)
  then show ?thesis by (simp add: noBackgroundProfile_def initialProfile_def)
qed

section \<open>Tokenizer: the quoted-comma scenario\<close>

text \<open>
  C8. On the text \<open>Name,Title\<close>, line feed, \<open>"Jane, A",CEO\<close>, line feed, the tokenizer
  returns the headers \<open>Name\<close>, \<open>Title\<close> and exactly one data row \<open>Jane, A\<close>, \<open>CEO\<close>: the
  comma inside the quotes does not end the field, the enclosing quotes are dropped, and
  the final line feed adds no row.
\<close>

theorem parseRawCSV_quoted_comma:
  "parseRawCSV (''Name,Title'' @ [LF] @ [dquote] @ ''Jane, A'' @ [dquote] @ '',CEO'' @ [LF])
     = \<lparr> headers = [''Name'', ''Title''], rows = [[''Jane, A'', ''CEO'']] \<rparr>"
  by (simp add: parseRawCSV_def dquote_def LF_def CR_def trim_def is_space_def)

theorem parseRawCSV_quoted_comma_witness:
  "headers (parseRawCSV (''Name,Title'' @ [LF] @ [dquote] @ ''Jane, A'' @ [dquote] @ '',CEO'' @ [LF]))
     = [''Name'', ''Title'']
   \<and> length (rows (parseRawCSV (''Name,Title'' @ [LF] @ [dquote] @ ''Jane, A'' @ [dquote] @ '',CEO'' @ [LF]))) = 1"
  using parseRawCSV_quoted_comma by simp

end
